theory Spec2Isabelle
  imports Main
begin

section \<open>Constants (game\_constants.py)\<close>

datatype Color = RED | YELLOW | GREEN | BLUE | COLORLESS

datatype CardType = NUMBER | SKIP | DRAW_TWO | REVERSE | WILD | WILD_DRAW_FOUR
  | CUSTOM_CARD_X | CUSTOM_ACTION_CARD_Y | CUSTOM_WILD_CARD_Z

datatype EffectCategory = DRAW | COLOR_CHANGE | TURN | END_TURN

datatype GameEvent = CARD_PLAYED | CARD_DRAWN | ADD_CARD_TO_DECK | ADD_CARD_TO_BOARD
  | REMOVE_CARD_FROM_DECK | PLAYER_TURN_CHANGED | TURN_ORDER_CHANGED | BOARD_CLEARED

text \<open>The \<^verbatim>\<open>.value\<close> strings of the enumerations.\<close>

fun Color_value :: "Color \<Rightarrow> string" where
  "Color_value RED = ''Red''"
| "Color_value YELLOW = ''Yellow''"
| "Color_value GREEN = ''Green''"
| "Color_value BLUE = ''Blue''"
| "Color_value COLORLESS = ''Colorless''"

fun CardType_value :: "CardType \<Rightarrow> string" where
  "CardType_value NUMBER = ''Number''"
| "CardType_value SKIP = ''Skip''"
| "CardType_value DRAW_TWO = ''Draw +2''"
| "CardType_value REVERSE = ''Reverse''"
| "CardType_value WILD = ''Wild''"
| "CardType_value WILD_DRAW_FOUR = ''Wild Draw +4''"
| "CardType_value CUSTOM_CARD_X = ''Custom X''"
| "CardType_value CUSTOM_ACTION_CARD_Y = ''Custom Y''"
| "CardType_value CUSTOM_WILD_CARD_Z = ''Custom Z''"

text \<open>The exceptions that the modelled code can raise.\<close>

datatype error = IndexError string | ZeroDivisionError string | ValueError string
  | KeyError string | AttributeError string

section \<open>Python primitives used by the code\<close>

text \<open>List subscription \<^verbatim>\<open>xs[i]\<close>: a negative index counts from the end, an index
  outside \<open>[-n, n)\<close> raises IndexError.\<close>

definition subscript :: "'a list \<Rightarrow> int \<Rightarrow> error + 'a" where
  "subscript xs i =
     (if 0 \<le> i \<and> i < int (length xs) then Inr (xs ! nat i)
      else if - int (length xs) \<le> i \<and> i < 0 then Inr (xs ! nat (i + int (length xs)))
      else Inl (IndexError ''list index out of range''))"

text \<open>\<^verbatim>\<open>xs.pop()\<close> removes and returns the last element and raises IndexError on an empty
  list.\<close>

definition pop :: "'a list \<Rightarrow> error + ('a \<times> 'a list)" where
  "pop xs = (if xs = [] then Inl (IndexError ''pop from empty list'')
             else Inr (last xs, butlast xs))"

text \<open>\<^verbatim>\<open>a % n\<close> on integers: ZeroDivisionError for \<open>n = 0\<close>; otherwise the result has the
  sign of the divisor, as \<open>mod\<close> on \<open>int\<close> has.\<close>

definition py_mod :: "int \<Rightarrow> int \<Rightarrow> error + int" where
  "py_mod a n = (if n = 0 then Inl (ZeroDivisionError ''integer modulo by zero'') else Inr (a mod n))"

text \<open>\<^verbatim>\<open>str(i)\<close> for an integer, and the format specification \<^verbatim>\<open>:<w\<close> (pad with
  spaces on the right up to width \<open>w\<close>, never truncate).\<close>

fun str_nat :: "nat \<Rightarrow> string" where
  "str_nat n = (if n < 10 then [''0123456789'' ! n]
                else str_nat (n div 10) @ [''0123456789'' ! (n mod 10)])"

definition str_int :: "int \<Rightarrow> string" where
  "str_int i = (if i < 0 then CHR ''-'' # str_nat (nat (- i)) else str_nat (nat i))"

definition ljust :: "nat \<Rightarrow> string \<Rightarrow> string" where
  "ljust w s = s @ replicate (w - length s) CHR '' ''"

text \<open>\<^verbatim>\<open>sep.join(lines)\<close>.\<close>

fun join :: "string \<Rightarrow> string list \<Rightarrow> string" where
  "join sep [] = []"
| "join sep [l] = l"
| "join sep (l # ls) = l @ sep @ join sep ls"

section \<open>Cards (card.py)\<close>

text \<open>One constructor per concrete card class, with the attributes its \<^verbatim>\<open>__init__\<close>
  receives: colour, value and id for a number card, colour and id for the action cards, the
  id and the mutable \<^verbatim>\<open>_chosen_color\<close> for the two wild cards (whose colour is always
  \<^verbatim>\<open>COLORLESS\<close>). The source compares cards by object identity; CardFactory gives every
  card object its own id, so two card values here are equal exactly when they stand for
  the same object.\<close>

datatype Card =
    NumberCard Color int int
  | SkipCard Color int
  | DrawTwoCard Color int
  | ReverseCard Color int
  | WildCard int "Color option"
  | WildDrawFourCard int "Color option"

fun color :: "Card \<Rightarrow> Color" where
  "color (NumberCard c v i) = c"
| "color (SkipCard c i) = c"
| "color (DrawTwoCard c i) = c"
| "color (ReverseCard c i) = c"
| "color (WildCard i ch) = COLORLESS"
| "color (WildDrawFourCard i ch) = COLORLESS"

fun card_value :: "Card \<Rightarrow> int option" where
  "card_value (NumberCard c v i) = Some v"
| "card_value _ = None"

fun card_id :: "Card \<Rightarrow> int" where
  "card_id (NumberCard c v i) = i"
| "card_id (SkipCard c i) = i"
| "card_id (DrawTwoCard c i) = i"
| "card_id (ReverseCard c i) = i"
| "card_id (WildCard i ch) = i"
| "card_id (WildDrawFourCard i ch) = i"

fun effect_types :: "Card \<Rightarrow> EffectCategory set" where
  "effect_types (NumberCard c v i) = {}"
| "effect_types (SkipCard c i) = {TURN}"
| "effect_types (DrawTwoCard c i) = {DRAW}"
| "effect_types (ReverseCard c i) = {TURN}"
| "effect_types (WildCard i ch) = {COLOR_CHANGE}"
| "effect_types (WildDrawFourCard i ch) = {DRAW, COLOR_CHANGE}"

fun card_type :: "Card \<Rightarrow> CardType" where
  "card_type (NumberCard c v i) = NUMBER"
| "card_type (SkipCard c i) = SKIP"
| "card_type (DrawTwoCard c i) = DRAW_TWO"
| "card_type (ReverseCard c i) = REVERSE"
| "card_type (WildCard i ch) = WILD"
| "card_type (WildDrawFourCard i ch) = WILD_DRAW_FOUR"

text \<open>Every member of \<^verbatim>\<open>Color\<close> is truthy, so the wild cards' effective colour is the
  chosen colour whenever one is set.\<close>

fun effective_color :: "Card \<Rightarrow> Color" where
  "effective_color (NumberCard c v i) = c"
| "effective_color (SkipCard c i) = c"
| "effective_color (DrawTwoCard c i) = c"
| "effective_color (ReverseCard c i) = c"
| "effective_color (WildCard i ch) = (case ch of Some c \<Rightarrow> c | None \<Rightarrow> COLORLESS)"
| "effective_color (WildDrawFourCard i ch) = (case ch of Some c \<Rightarrow> c | None \<Rightarrow> COLORLESS)"

fun class_name :: "Card \<Rightarrow> string" where
  "class_name (NumberCard c v i) = ''NumberCard''"
| "class_name (SkipCard c i) = ''SkipCard''"
| "class_name (DrawTwoCard c i) = ''DrawTwoCard''"
| "class_name (ReverseCard c i) = ''ReverseCard''"
| "class_name (WildCard i ch) = ''WildCard''"
| "class_name (WildDrawFourCard i ch) = ''WildDrawFourCard''"

text \<open>\<^verbatim>\<open>Card.__str__\<close>.\<close>

definition card_str :: "Card \<Rightarrow> string" where
  "card_str c =
     ''Card: '' @ ljust 16 (class_name c) @ ''| '' @
     ''ID: '' @ ljust 3 (str_int (card_id c)) @ '' | '' @
     ''Color: '' @ ljust 10 (Color_value (color c)) @ '' | '' @
     ''Effective: '' @ ljust 10 (Color_value (effective_color c)) @ '' | '' @
     ''Value: '' @ ljust 4 (case card_value c of Some v \<Rightarrow> str_int v | None \<Rightarrow> ''N/A'') @ '' | '' @
     ''Type: '' @ CardType_value (card_type c)"

section \<open>Hand and Player (hand.py, player.py)\<close>

record Hand =
  cards :: "Card list"

definition add_card :: "Hand \<Rightarrow> Card \<Rightarrow> Hand" where
  "add_card h c = h\<lparr>cards := cards h @ [c]\<rparr>"

text \<open>\<^verbatim>\<open>show_hand\<close> returns the formatted text of the hand, one line
  \<^verbatim>\<open>"{index}: {card}"\<close> per card.\<close>

definition show_hand :: "Hand \<Rightarrow> string" where
  "show_hand h =
     (if cards h = [] then ''Hand is empty''
      else join [CHR 0x0A]
             (map (\<lambda>(index, crd). str_nat index @ '': '' @ card_str crd)
                  (zip [0 ..< length (cards h)] (cards h))))"

definition get_hand :: "Hand \<Rightarrow> Card list" where
  "get_hand h = cards h"

record Player =
  name :: string
  hand :: Hand
  player_id :: nat
  is_human :: bool

definition draw_card_Player :: "Player \<Rightarrow> Card \<Rightarrow> Player" where
  "draw_card_Player p c = p\<lparr>hand := add_card (hand p) c\<rparr>"

section \<open>Observers (game\_observer.py)\<close>

text \<open>Game, Board, Deck and TurnManager each keep a list of observers and call
  \<^verbatim>\<open>on_game_event(event, data)\<close> of every one after a mutation; an exception a handler
  raises leaves \<^verbatim>\<open>notify_observers\<close> and the method that called it. The payload
  \<^verbatim>\<open>data\<close> is a dictionary from keys to objects.\<close>

datatype event_value =
    CardValue "Card option"
  | CardsValue "Card option list"
  | PlayerValue Player
  | BoolValue bool
  | MethodValue
  | Timestamp

type_synonym event_data = "(string \<times> event_value) list"

definition getitem :: "event_data \<Rightarrow> string \<Rightarrow> error + event_value" where
  "getitem data k = (case map_of data k of None \<Rightarrow> Inl (KeyError k) | Some v \<Rightarrow> Inr v)"

fun type_name :: "event_value \<Rightarrow> string" where
  "type_name (CardValue None) = ''NoneType''"
| "type_name (CardValue (Some c)) = class_name c"
| "type_name (CardsValue cs) = ''list''"
| "type_name (PlayerValue p) = ''Player''"
| "type_name (BoolValue b) = ''bool''"
| "type_name MethodValue = ''method''"
| "type_name Timestamp = ''datetime.datetime''"

definition no_attribute :: "event_value \<Rightarrow> string \<Rightarrow> error" where
  "no_attribute v a =
     AttributeError ([CHR 0x27] @ type_name v @ [CHR 0x27] @ '' object has no attribute ''
                     @ [CHR 0x27] @ a @ [CHR 0x27])"

text \<open>The dictionary \<^verbatim>\<open>card_data\<close> that the handlers of GameContext build from a card:
  its type, colour and value. Reading \<^verbatim>\<open>card.card_type\<close> fails on anything but a
  card.\<close>

definition card_data :: "event_value \<Rightarrow> error + (string \<times> string \<times> int option)" where
  "card_data v =
     (case v of
        CardValue (Some c) \<Rightarrow> Inr (CardType_value (card_type c), Color_value (color c), card_value c)
      | _ \<Rightarrow> Inl (no_attribute v ''card_type''))"

text \<open>The one observer class is GameContext. Its handlers write snapshots that belong to
  the observer and are not kept here; the model gives what a handler does to its caller: it
  returns (\<open>None\<close>) or raises. For every event but \<^verbatim>\<open>CARD_PLAYED\<close> that does not depend
  on the snapshots. The handler of \<^verbatim>\<open>CARD_PLAYED\<close> removes the card from the snapshots
  and raises when it is not there; no operation modelled here sends that event, and the
  model leaves its outcome open. The handler of \<^verbatim>\<open>BOARD_CLEARED\<close> reads
  \<^verbatim>\<open>data['board']\<close>; \<^verbatim>\<open>REMOVE_CARD_FROM_DECK\<close> has no branch.\<close>

datatype observer = GameContext

fun on_game_event :: "observer \<Rightarrow> GameEvent \<Rightarrow> event_data \<Rightarrow> error option" where
  "on_game_event GameContext CARD_DRAWN data =
     (case getitem data ''card'' of
        Inl e \<Rightarrow> Some e
      | Inr crd \<Rightarrow>
          (case getitem data ''player'' of
             Inl e \<Rightarrow> Some e
           | Inr (PlayerValue p) \<Rightarrow> (case card_data crd of Inl e \<Rightarrow> Some e | Inr d \<Rightarrow> None)
           | Inr v \<Rightarrow> Some (no_attribute v ''name'')))"
| "on_game_event GameContext PLAYER_TURN_CHANGED data = None"
| "on_game_event GameContext TURN_ORDER_CHANGED data = None"
| "on_game_event GameContext ADD_CARD_TO_BOARD data =
     (case getitem data ''card'' of
        Inl e \<Rightarrow> Some e
      | Inr crd \<Rightarrow> (case card_data crd of Inl e \<Rightarrow> Some e | Inr d \<Rightarrow> None))"
| "on_game_event GameContext BOARD_CLEARED data =
     (case getitem data ''board'' of Inl e \<Rightarrow> Some e | Inr b \<Rightarrow> None)"
| "on_game_event GameContext ADD_CARD_TO_DECK data =
     (case getitem data ''card'' of
        Inl e \<Rightarrow> Some e
      | Inr crd \<Rightarrow> (case card_data crd of Inl e \<Rightarrow> Some e | Inr d \<Rightarrow> None))"
| "on_game_event GameContext REMOVE_CARD_FROM_DECK data = None"

fun notify_observers :: "observer list \<Rightarrow> GameEvent \<Rightarrow> event_data \<Rightarrow> error option" where
  "notify_observers [] event data = None"
| "notify_observers (ob # obs) event data =
     (case on_game_event ob event data of
        Some e \<Rightarrow> Some e
      | None \<Rightarrow> notify_observers obs event data)"

section \<open>Turn manager (turn\_manager.py)\<close>

text \<open>The player list of the turn manager is the very list object the game holds, so the
  model keeps it once, here. A method that fails gives the exception; the turn manager it
  leaves behind is not kept, since nothing up to the main loop catches the exception.\<close>

record TurnManager =
  players :: "Player list"
  current :: int
  clockwise :: bool
  tm_observers :: "observer list"

definition get_next_player :: "TurnManager \<Rightarrow> error + Player" where
  "get_next_player t =
     (case (if clockwise t then py_mod (current t + 1) (int (length (players t)))
            else py_mod (current t - 1) (int (length (players t)))) of
        Inl e \<Rightarrow> Inl e
      | Inr next_player \<Rightarrow> subscript (players t) next_player)"

definition get_current_player :: "TurnManager \<Rightarrow> error + Player" where
  "get_current_player t = subscript (players t) (current t)"

definition end_turn :: "TurnManager \<Rightarrow> error + TurnManager" where
  "end_turn t =
     (case (if clockwise t then py_mod (current t + 1) (int (length (players t)))
            else py_mod (current t - 1) (int (length (players t)))) of
        Inl e \<Rightarrow> Inl e
      | Inr c \<Rightarrow>
          (case notify_observers (tm_observers t) PLAYER_TURN_CHANGED [(''player'', MethodValue)] of
             Some e \<Rightarrow> Inl e
           | None \<Rightarrow> Inr (t\<lparr>current := c\<rparr>)))"

definition reverse_play_order :: "TurnManager \<Rightarrow> error + TurnManager" where
  "reverse_play_order t =
     (let t' = (if clockwise t then t\<lparr>clockwise := False\<rparr> else t\<lparr>clockwise := True\<rparr>)
      in case notify_observers (tm_observers t') TURN_ORDER_CHANGED
                [(''turn_order'', BoolValue (clockwise t'))] of
           Some e \<Rightarrow> Inl e
         | None \<Rightarrow> Inr t')"

definition skip_turn :: "TurnManager \<Rightarrow> error + TurnManager" where
  "skip_turn t = end_turn t"

section \<open>Configuration (game\_config.py)\<close>

record GameRules =
  FORCE_PLAY_IF_POSSIBLE :: bool
  ALLOW_MULTIPLE_DECKS :: bool
  STARTING_HAND_SIZE :: int
  ALLOW_FINAL_SPECIAL_CARD :: bool
  DRAW_PENALTY :: int
  TIMEOUT_SECONDS :: int
  STACKABLE_DRAW_CARDS :: bool
  WILD_CARD_ALLOW_PICK_COLOR :: bool
  SKIP_TURN_ON_DRAW :: bool

text \<open>The dictionary \<^verbatim>\<open>FREQUENCY_OF_NUMBER_CARDS\<close> is kept as the list of its items, in
  the order \<^verbatim>\<open>.items()\<close> yields them.\<close>

record DeckConfiguration =
  FREQUENCY_OF_NUMBER_CARDS :: "(int \<times> int) list"
  ACTION_CARDS_PER_COLOR :: int
  WILD_CARDS_PER_TYPE :: int
  DECK_COLORS :: "Color list"
  ACTION_CARDS :: "CardType list"
  WILD_CARDS :: "CardType list"

section \<open>Board (board.py)\<close>

text \<open>A Python list holds whatever is put into it, and \<^verbatim>\<open>clear_all_except_last\<close> can put
  \<^verbatim>\<open>None\<close> on the board, so the entries of the board and of the deck are optional
  cards. A method of the board or the deck that mutates and then notifies returns the
  object as the mutation left it, together with the exception if a handler raised one.\<close>

record Board =
  cards_on_board :: "Card option list"
  board_observers :: "observer list"

definition add_card_to_board :: "Board \<Rightarrow> Card \<Rightarrow> Board \<times> error option" where
  "add_card_to_board b crd =
     (let b' = b\<lparr>cards_on_board := cards_on_board b @ [Some crd]\<rparr>
      in (b', notify_observers (board_observers b') ADD_CARD_TO_BOARD
                [(''card'', CardValue (Some crd))]))"

definition get_board :: "Board \<Rightarrow> Card option list" where
  "get_board b = cards_on_board b"

definition show_top_card_on_board :: "Board \<Rightarrow> Card option" where
  "show_top_card_on_board b =
     (case subscript (cards_on_board b) (- 1) of Inr c \<Rightarrow> c | Inl e \<Rightarrow> None)"

text \<open>Returns the board it leaves behind, and the cards to recycle unless a handler
  raised.\<close>

definition clear_all_except_last :: "Board \<Rightarrow> Board \<times> (error + Card option list)" where
  "clear_all_except_last b =
     (let last_card = show_top_card_on_board b;
          cards_to_recycle = filter (\<lambda>crd. crd \<noteq> last_card) (cards_on_board b);
          b' = b\<lparr>cards_on_board := [last_card]\<rparr>
      in case notify_observers (board_observers b') BOARD_CLEARED
                [(''board_cards'', CardsValue (cards_on_board b'))] of
           Some e \<Rightarrow> (b', Inl e)
         | None \<Rightarrow> (b', Inr cards_to_recycle))"

section \<open>Deck (deck.py)\<close>

record Deck =
  card_deck :: "Card option list"
  deck_observers :: "observer list"

definition get_deck :: "Deck \<Rightarrow> Card option list" where
  "get_deck d = card_deck d"

definition add_card_to_deck :: "Deck \<Rightarrow> Card option \<Rightarrow> Deck \<times> error option" where
  "add_card_to_deck d crd =
     (let d' = d\<lparr>card_deck := card_deck d @ [crd]\<rparr>
      in (d', notify_observers (deck_observers d') ADD_CARD_TO_DECK [(''card'', CardValue crd)]))"

text \<open>\<^verbatim>\<open>random.shuffle\<close> is a parameter of the model: the permutation \<open>shf\<close> that the
  random source picks.\<close>

definition shuffle_deck :: "(Card option list \<Rightarrow> Card option list) \<Rightarrow> Deck \<Rightarrow> Deck" where
  "shuffle_deck shf d = d\<lparr>card_deck := shf (card_deck d)\<rparr>"

definition get_deck_length :: "Deck \<Rightarrow> int" where
  "get_deck_length d = int (length (card_deck d))"

text \<open>Returns the deck that remains, and the drawn card (or \<^verbatim>\<open>None\<close>).\<close>

definition draw_card :: "Deck \<Rightarrow> Deck \<times> (error + Card option)" where
  "draw_card d =
     (if card_deck d \<noteq> [] then
        (case pop (card_deck d) of
           Inl e \<Rightarrow> (d, Inl e)
         | Inr (crd, rest) \<Rightarrow>
             (let d' = d\<lparr>card_deck := rest\<rparr>
              in case notify_observers (deck_observers d') REMOVE_CARD_FROM_DECK
                        [(''card'', CardValue crd)] of
                   Some e \<Rightarrow> (d', Inl e)
                 | None \<Rightarrow> (d', Inr crd)))
      else (d, Inr None))"

text \<open>The loop of \<^verbatim>\<open>attempt_recycle_deck\<close> over the cards to recycle.\<close>

fun add_cards_to_deck :: "Deck \<Rightarrow> Card option list \<Rightarrow> Deck \<times> error option" where
  "add_cards_to_deck d [] = (d, None)"
| "add_cards_to_deck d (crd # cs) =
     (case add_card_to_deck d crd of
        (d', Some e) \<Rightarrow> (d', Some e)
      | (d', None) \<Rightarrow> add_cards_to_deck d' cs)"

text \<open>Returns the deck and the board after recycling, with the exception if one was
  raised on the way.\<close>

definition attempt_recycle_deck :: "Deck \<Rightarrow> Board \<Rightarrow> (Deck \<times> Board) \<times> error option" where
  "attempt_recycle_deck d b =
     (case clear_all_except_last b of
        (b', Inl e) \<Rightarrow> ((d, b'), Some e)
      | (b', Inr board_cards_to_recycle) \<Rightarrow>
          (case add_cards_to_deck d board_cards_to_recycle of
             (d', r) \<Rightarrow> ((d', b'), r)))"

section \<open>Card factory and deck builder (card\_factory.py, deck\_builder.py)\<close>

text \<open>\<^verbatim>\<open>create_card\<close> takes the class-level counter \<^verbatim>\<open>next_card_id\<close>, which it
  advances before anything else, and returns the card with the advanced counter. The
  callers modelled here always pass a colour.\<close>

definition create_card :: "int \<Rightarrow> Color \<Rightarrow> CardType \<Rightarrow> int option \<Rightarrow> error + (Card \<times> int)" where
  "create_card next_id col ct v =
     (let cid = next_id; next_id' = next_id + 1 in
      case ct of
        NUMBER \<Rightarrow> (case v of
                     None \<Rightarrow> Inl (ValueError ''NUMBER cards require card_value parameter.'')
                   | Some n \<Rightarrow> Inr (NumberCard col n cid, next_id'))
      | SKIP \<Rightarrow> Inr (SkipCard col cid, next_id')
      | DRAW_TWO \<Rightarrow> Inr (DrawTwoCard col cid, next_id')
      | REVERSE \<Rightarrow> Inr (ReverseCard col cid, next_id')
      | WILD \<Rightarrow> Inr (WildCard cid None, next_id')
      | WILD_DRAW_FOUR \<Rightarrow> Inr (WildDrawFourCard cid None, next_id')
      | _ \<Rightarrow> Inl (ValueError (''Unknown card type: CardType.'' @
                 (case ct of CUSTOM_CARD_X \<Rightarrow> ''CUSTOM_CARD_X''
                           | CUSTOM_ACTION_CARD_Y \<Rightarrow> ''CUSTOM_ACTION_CARD_Y''
                           | _ \<Rightarrow> ''CUSTOM_WILD_CARD_Z''))))"

text \<open>The nested loops of \<^verbatim>\<open>populate_deck\<close> call \<^verbatim>\<open>create_card\<close> for this sequence of
  arguments.\<close>

definition card_requests :: "DeckConfiguration \<Rightarrow> (Color \<times> CardType \<times> int option) list" where
  "card_requests cfg =
     concat (map (\<lambda>col.
         concat (map (\<lambda>(v, frequency). replicate (nat frequency) (col, NUMBER, Some v))
                     (FREQUENCY_OF_NUMBER_CARDS cfg))
         @ concat (map (\<lambda>ct. replicate (nat (ACTION_CARDS_PER_COLOR cfg)) (col, ct, None))
                       (ACTION_CARDS cfg)))
       (DECK_COLORS cfg))
     @ concat (map (\<lambda>ct. replicate (nat (WILD_CARDS_PER_TYPE cfg)) (COLORLESS, ct, None))
                   (WILD_CARDS cfg))"

text \<open>Creating and adding the cards: the deck and the counter as they stand at the end, or
  at the exception.\<close>

fun add_created_cards ::
  "(Color \<times> CardType \<times> int option) list \<Rightarrow> Deck \<times> int \<Rightarrow> (Deck \<times> int) \<times> error option" where
  "add_created_cards [] (d, next_id) = ((d, next_id), None)"
| "add_created_cards ((col, ct, v) # rs) (d, next_id) =
     (case create_card next_id col ct v of
        Inl e \<Rightarrow> ((d, next_id + 1), Some e)
      | Inr (crd, next_id') \<Rightarrow>
          (case add_card_to_deck d (Some crd) of
             (d', Some e) \<Rightarrow> ((d', next_id'), Some e)
           | (d', None) \<Rightarrow> add_created_cards rs (d', next_id')))"

definition populate_deck ::
  "(Card option list \<Rightarrow> Card option list) \<Rightarrow> DeckConfiguration \<Rightarrow> Deck \<times> int
     \<Rightarrow> (Deck \<times> int) \<times> error option" where
  "populate_deck shf cfg st =
     (case add_created_cards (card_requests cfg) st of
        (st', Some e) \<Rightarrow> (st', Some e)
      | ((d, next_id), None) \<Rightarrow> ((shuffle_deck shf d, next_id), None))"

section \<open>Game state (game.py)\<close>

text \<open>The game object with the deck, the board and the turn manager it owns, its own
  observers, the counter of the card factory, and the lines printed so far.
  \<^verbatim>\<open>Game.__init__\<close> subscribes one GameContext to the game, to the board and to the
  deck, and none to the turn manager.\<close>

record Game =
  game_active :: bool
  rules :: GameRules
  deck_config :: DeckConfiguration
  deck :: Deck
  board :: Board
  tm :: TurnManager
  game_observers :: "observer list"
  next_card_id :: int
  stdout :: "string list"

definition print :: "Game \<Rightarrow> string \<Rightarrow> Game" where
  "print g s = g\<lparr>stdout := stdout g @ [s]\<rparr>"

definition stop_game :: "Game \<Rightarrow> Game" where
  "stop_game g = g\<lparr>game_active := False\<rparr>"

section \<open>Card effects (card.py)\<close>

text \<open>\<^verbatim>\<open>Card._validate_last_card_allowed\<close> takes the length of what \<^verbatim>\<open>show_hand()\<close>
  returns, the formatted text of the hand.\<close>

definition validate_last_card_allowed :: "Game \<Rightarrow> error + bool" where
  "validate_last_card_allowed g =
     (if ALLOW_FINAL_SPECIAL_CARD (rules g) = False then
        (case get_current_player (tm g) of
           Inl e \<Rightarrow> Inl e
         | Inr p \<Rightarrow> if length (show_hand (hand p)) = 1 then Inr False else Inr True)
      else Inr True)"

text \<open>The shared shape of \<^verbatim>\<open>can_execute_effect\<close> in SkipCard, ReverseCard and WildCard.\<close>

definition can_execute_special :: "Game \<Rightarrow> error + bool" where
  "can_execute_special g =
     (case show_top_card_on_board (board g) of
        None \<Rightarrow> Inr True
      | Some top_card \<Rightarrow>
          (case validate_last_card_allowed g of
             Inl e \<Rightarrow> Inl e
           | Inr allowed \<Rightarrow> if \<not> allowed then Inr False else Inr True))"

text \<open>The shape of \<^verbatim>\<open>can_execute_effect\<close> in DrawTwoCard and WildDrawFourCard.\<close>

definition can_execute_draw :: "Game \<Rightarrow> error + bool" where
  "can_execute_draw g =
     (case show_top_card_on_board (board g) of
        None \<Rightarrow> Inr True
      | Some top_card \<Rightarrow>
          (case validate_last_card_allowed g of
             Inl e \<Rightarrow> Inl e
           | Inr allowed \<Rightarrow>
               if \<not> allowed then Inr False
               else if STACKABLE_DRAW_CARDS (rules g) = False \<and> DRAW \<in> effect_types top_card
               then Inr False
               else Inr True))"

fun can_execute_effect :: "Card \<Rightarrow> Game \<Rightarrow> error + bool" where
  "can_execute_effect (NumberCard c v i) g = Inr True"
| "can_execute_effect (SkipCard c i) g = can_execute_special g"
| "can_execute_effect (DrawTwoCard c i) g = can_execute_draw g"
| "can_execute_effect (ReverseCard c i) g = can_execute_special g"
| "can_execute_effect (WildCard i ch) g = can_execute_special g"
| "can_execute_effect (WildDrawFourCard i ch) g = can_execute_draw g"

text \<open>\<^verbatim>\<open>SkipCard.execute_effect\<close>.\<close>

definition execute_effect_SkipCard :: "Game \<Rightarrow> error + Game" where
  "execute_effect_SkipCard g =
     (case skip_turn (tm g) of
        Inl e \<Rightarrow> Inl e
      | Inr t \<Rightarrow> Inr (print (g\<lparr>tm := t\<rparr>) ''* Next player skipped! *''))"

section \<open>Game engine (game\_engine.py)\<close>

text \<open>\<^verbatim>\<open>validate_play\<close> returns its verdict and the game, which differs from the one
  given only by the line an exception handler prints. An exception leaves the \<^verbatim>\<open>try\<close>
  block at the call that raises it.\<close>

definition validation_error :: "Game \<Rightarrow> error \<Rightarrow> bool \<times> Game" where
  "validation_error g e =
     (case e of
        AttributeError m \<Rightarrow>
          (False, print g (''Validation error: Incorect card attribute: '' @ m))
      | ValueError m \<Rightarrow> (False, print g (''Validation error: Invalid card value: '' @ m))
      | IndexError m \<Rightarrow> (False, print g (''Validation error: Unexpected general error: '' @ m))
      | ZeroDivisionError m \<Rightarrow>
          (False, print g (''Validation error: Unexpected general error: '' @ m))
      | KeyError k \<Rightarrow>
          (False, print g (''Validation error: Unexpected general error: ''
                           @ [CHR 0x27] @ k @ [CHR 0x27])))"

definition validate_play :: "Game \<Rightarrow> Card \<Rightarrow> bool \<times> Game" where
  "validate_play g card_to_validate =
     (case show_top_card_on_board (board g) of
        None \<Rightarrow> (True, g)
      | Some top_card_on_board \<Rightarrow>
          (case (if effective_color card_to_validate = effective_color top_card_on_board
                 then can_execute_effect card_to_validate g else Inr False) of
             Inl e \<Rightarrow> validation_error g e
           | Inr True \<Rightarrow> (True, g)
           | Inr False \<Rightarrow>
               if card_type card_to_validate = NUMBER
                  \<and> card_value card_to_validate = card_value top_card_on_board
               then (True, g)
               else
                 (case (if card_type card_to_validate \<in> set (WILD_CARDS (deck_config g))
                        then can_execute_effect card_to_validate g else Inr False) of
                    Inl e \<Rightarrow> validation_error g e
                  | Inr True \<Rightarrow> (True, g)
                  | Inr False \<Rightarrow> (False, g))))"

text \<open>An exception that leaves the engine is caught nowhere up to the main loop, so the
  engine's methods give either their result with the game or the exception alone.\<close>

text \<open>The second strategy of \<^verbatim>\<open>_handle_empty_deck_scenario\<close>, on the game as the first
  strategy left it.\<close>

definition add_another_deck ::
  "(Card option list \<Rightarrow> Card option list) \<Rightarrow> Game \<Rightarrow> error + (Card option \<times> Game)" where
  "add_another_deck shf g =
     (if ALLOW_MULTIPLE_DECKS (rules g) then
        (let g2 = print g ''Adding another deck of cards..'' in
         case populate_deck shf (deck_config g2) (deck g2, next_card_id g2) of
           ((d, next_id), Some (IndexError m)) \<Rightarrow>
             Inr (None, print (g2\<lparr>deck := d, next_card_id := next_id\<rparr>)
                          ''Failed to create deck/grab a card..'')
         | ((d, next_id), Some e) \<Rightarrow> Inl e
         | ((d, next_id), None) \<Rightarrow>
             (let g3 = print (g2\<lparr>deck := d, next_card_id := next_id\<rparr>) ''New deck added..''
              in case draw_card (deck g3) of
                   (d', Inr crd) \<Rightarrow> Inr (crd, g3\<lparr>deck := d'\<rparr>)
                 | (d', Inl (IndexError m)) \<Rightarrow>
                     Inr (None, print (g3\<lparr>deck := d'\<rparr>) ''Failed to create deck/grab a card..'')
                 | (d', Inl e) \<Rightarrow> Inl e))
      else Inr (None, print g ''No cards are available to draw..''))"

text \<open>\<^verbatim>\<open>_handle_empty_deck_scenario\<close>: the drawn card (or \<^verbatim>\<open>None\<close>) and the game
  afterwards. Recycling is outside every \<^verbatim>\<open>try\<close>; of what the first retried draw
  raises only IndexError is caught.\<close>

definition handle_empty_deck_scenario ::
  "(Card option list \<Rightarrow> Card option list) \<Rightarrow> Game \<Rightarrow> error + (Card option \<times> Game)" where
  "handle_empty_deck_scenario shf g =
     (case (if get_deck_length (deck g) = 0
            then (case attempt_recycle_deck (deck g) (board g) of
                    ((d, b), Some e) \<Rightarrow> Inl e
                  | ((d, b), None) \<Rightarrow> Inr (g\<lparr>deck := d, board := b\<rparr>))
            else Inr g) of
        Inl e \<Rightarrow> Inl e
      | Inr g1 \<Rightarrow>
          (case draw_card (deck g1) of
             (d, Inr crd) \<Rightarrow> Inr (crd, g1\<lparr>deck := d\<rparr>)
           | (d, Inl (IndexError m)) \<Rightarrow> add_another_deck shf (g1\<lparr>deck := d\<rparr>)
           | (d, Inl e) \<Rightarrow> Inl e))"

text \<open>A player is passed around as a reference to a Player object of the game; the model
  uses its position in the player list. \<^verbatim>\<open>player.draw_card(card)\<close>:\<close>

definition player_takes :: "Game \<Rightarrow> nat \<Rightarrow> Card \<Rightarrow> Game" where
  "player_takes g pl crd =
     g\<lparr>tm := (tm g)\<lparr>players := (players (tm g))[pl := draw_card_Player (players (tm g) ! pl) crd]\<rparr>\<rparr>"

text \<open>The loop of \<^verbatim>\<open>player_draw_card\<close>; the fourth argument counts the iterations of
  \<^verbatim>\<open>range(amount)\<close> still to run, the triple holds \<^verbatim>\<open>cards_drawn\<close>,
  \<^verbatim>\<open>no_draw_error\<close> and the game.\<close>

fun player_draw_loop ::
  "(Card option list \<Rightarrow> Card option list) \<Rightarrow> nat \<Rightarrow> int \<Rightarrow> nat \<Rightarrow> int \<times> bool \<times> Game \<Rightarrow> error + Game" where
  "player_draw_loop shf pl amount 0 (cards_drawn, no_draw_error, g) = Inr g"
| "player_draw_loop shf pl amount (Suc k) (cards_drawn, no_draw_error, g) =
     (case draw_card (deck g) of
        (d, Inl e) \<Rightarrow> Inl e
      | (d, Inr crd) \<Rightarrow>
          (case (if crd = None then handle_empty_deck_scenario shf (g\<lparr>deck := d\<rparr>)
                 else Inr (crd, g\<lparr>deck := d\<rparr>)) of
             Inl e \<Rightarrow> Inl e
           | Inr (Some c, g1) \<Rightarrow>
               (let g2 = player_takes g1 pl c;
                    cards_drawn' = cards_drawn + 1;
                    g3 = (if cards_drawn' = amount \<and> no_draw_error \<and> game_active g2
                          then print g2 (''* '' @ name (players (tm g2) ! pl) @ '' took ''
                                         @ str_int cards_drawn' @ '' card(s)! *'')
                          else g2)
                in case notify_observers (game_observers g3) CARD_DRAWN
                          [(''card'', CardValue (Some c)),
                           (''player'', PlayerValue (players (tm g3) ! pl)),
                           (''timestamp'', Timestamp)] of
                     Some e \<Rightarrow> Inl e
                   | None \<Rightarrow> player_draw_loop shf pl amount k (cards_drawn', no_draw_error, g3))
           | Inr (None, g1) \<Rightarrow>
               (if cards_drawn < amount then
                  Inr (print g1 (''Warning: '' @ name (players (tm g1) ! pl)
                                 @ '' could only draw '' @ str_int cards_drawn @ '' of ''
                                 @ str_int amount @ '' requested cards''))
                else player_draw_loop shf pl amount k (cards_drawn, no_draw_error, g1))))"

definition player_draw_card ::
  "(Card option list \<Rightarrow> Card option list) \<Rightarrow> Game \<Rightarrow> nat \<Rightarrow> int \<Rightarrow> error + Game" where
  "player_draw_card shf g pl amount = player_draw_loop shf pl amount (nat amount) (0, True, g)"

text \<open>The argument \<^verbatim>\<open>cards_per_player\<close> of \<^verbatim>\<open>deal_cards\<close> is checked with
  \<^verbatim>\<open>isinstance\<close>, so it is any Python value: an integer, or a value that is no integer,
  given by the text \<^verbatim>\<open>str\<close> makes of it.\<close>

datatype pyval = PyInt int | PyNonInt string

fun deal_loop ::
  "(Card option list \<Rightarrow> Card option list) \<Rightarrow> int \<Rightarrow> nat list \<Rightarrow> Game \<Rightarrow> error + Game" where
  "deal_loop shf n [] g = Inr g"
| "deal_loop shf n (player # ps) g =
     (case player_draw_card shf g player n of
        Inl e \<Rightarrow> Inl e
      | Inr g' \<Rightarrow> deal_loop shf n ps g')"

definition deal_cards ::
  "(Card option list \<Rightarrow> Card option list) \<Rightarrow> Game \<Rightarrow> nat list \<Rightarrow> pyval \<Rightarrow> error + Game" where
  "deal_cards shf g ps cards_per_player =
     (case cards_per_player of
        PyInt n \<Rightarrow>
          if n \<le> 0 then
            deal_loop shf 7 ps
              (print g (''Warning: Invalid cards_per_player value '' @ [CHR 0x27] @ str_int n
                        @ [CHR 0x27] @ ''. Using default value 7.''))
          else deal_loop shf n ps g
      | PyNonInt s \<Rightarrow>
          deal_loop shf 7 ps
            (print g (''Warning: Invalid cards_per_player value '' @ [CHR 0x27] @ s
                      @ [CHR 0x27] @ ''. Using default value 7.'')))"

text \<open>\<^verbatim>\<open>check_win_condition\<close> only reads the player it is given.\<close>

definition check_win_condition :: "Game \<Rightarrow> Player \<Rightarrow> Game" where
  "check_win_condition g player =
     (let hand_size = length (get_hand (hand player));
          g1 = (if hand_size = 1 then print g (name player @ '': UNO!'') else g)
      in if hand_size = 0
         then stop_game (print g1 (name player @ '' wins! '' @ [CHR 0x0A] @ '' Closing the game..''))
         else g1)"

section \<open>The specification's wording\<close>

text \<open>The legality check as the specification gives it: four rules, tried in this order, the
  first that matches decides. The top card is the last entry of a board that is not
  empty.\<close>

definition validate_play_spec :: "Game \<Rightarrow> Card \<Rightarrow> bool" where
  "validate_play_spec g C =
     (if cards_on_board (board g) = [] then True
      else if effective_color C = effective_color (the (last (cards_on_board (board g))))
              \<and> can_execute_effect C g = Inr True then True
      else if card_type C = NUMBER \<and> card_value C = card_value (the (last (cards_on_board (board g))))
      then True
      else if card_type C \<in> set (WILD_CARDS (deck_config g))
              \<and> can_execute_effect C g = Inr True then True
      else False)"

text \<open>The recovery from an empty deck as the specification gives it: recycle the board into
  the deck, shuffle the deck, retry the draw.\<close>

definition recovery_spec ::
  "(Card option list \<Rightarrow> Card option list) \<Rightarrow> Game \<Rightarrow> error + (Card option \<times> Game)" where
  "recovery_spec shf g =
     (case attempt_recycle_deck (deck g) (board g) of
        ((d, b), Some e) \<Rightarrow> Inl e
      | ((d, b), None) \<Rightarrow>
          (case draw_card (shuffle_deck shf d) of
             (d', Inl e) \<Rightarrow> Inl e
           | (d', Inr crd) \<Rightarrow> Inr (crd, g\<lparr>deck := d', board := b\<rparr>)))"

text \<open>The hand size \<^verbatim>\<open>deal_cards\<close> is said to settle on: the argument when it is a
  positive integer, 7 otherwise.\<close>

definition effective_cards_per_player :: "pyval \<Rightarrow> nat" where
  "effective_cards_per_player v =
     (case v of PyInt i \<Rightarrow> if i \<le> 0 then 7 else nat i | PyNonInt s \<Rightarrow> 7)"

section \<open>Shipped configurations and example states\<close>

text \<open>\<^verbatim>\<open>StandardRules\<close>, \<^verbatim>\<open>HardcoreRules\<close> and \<^verbatim>\<open>StandardDeck\<close> of game\_config.py.\<close>

definition StandardRules :: GameRules where
  "StandardRules = \<lparr>FORCE_PLAY_IF_POSSIBLE = True, ALLOW_MULTIPLE_DECKS = True,
     STARTING_HAND_SIZE = 7, ALLOW_FINAL_SPECIAL_CARD = True, DRAW_PENALTY = 1,
     TIMEOUT_SECONDS = 30, STACKABLE_DRAW_CARDS = True, WILD_CARD_ALLOW_PICK_COLOR = True,
     SKIP_TURN_ON_DRAW = False\<rparr>"

definition HardcoreRules :: GameRules where
  "HardcoreRules = \<lparr>FORCE_PLAY_IF_POSSIBLE = True, ALLOW_MULTIPLE_DECKS = True,
     STARTING_HAND_SIZE = 7, ALLOW_FINAL_SPECIAL_CARD = False, DRAW_PENALTY = 2,
     TIMEOUT_SECONDS = 20, STACKABLE_DRAW_CARDS = True, WILD_CARD_ALLOW_PICK_COLOR = True,
     SKIP_TURN_ON_DRAW = True\<rparr>"

definition StandardDeck :: DeckConfiguration where
  "StandardDeck = \<lparr>FREQUENCY_OF_NUMBER_CARDS =
       [(0, 1), (1, 2), (2, 2), (3, 2), (4, 2), (5, 2), (6, 2), (7, 2), (8, 2), (9, 2)],
     ACTION_CARDS_PER_COLOR = 2, WILD_CARDS_PER_TYPE = 4,
     DECK_COLORS = [RED, BLUE, GREEN, YELLOW],
     ACTION_CARDS = [SKIP, DRAW_TWO, REVERSE],
     WILD_CARDS = [WILD, WILD_DRAW_FOUR]\<rparr>"

text \<open>Three players: Ann holds one red Skip, Bob two cards, Cat none.\<close>

definition ann :: Player where
  "ann = \<lparr>name = ''Ann'', hand = \<lparr>cards = [SkipCard RED 1]\<rparr>, player_id = 1, is_human = True\<rparr>"

definition bob :: Player where
  "bob = \<lparr>name = ''Bob'', hand = \<lparr>cards = [NumberCard BLUE 5 2, DrawTwoCard RED 3]\<rparr>,
           player_id = 2, is_human = False\<rparr>"

definition cat :: Player where
  "cat = \<lparr>name = ''Cat'', hand = \<lparr>cards = []\<rparr>, player_id = 3, is_human = False\<rparr>"

text \<open>A running game under the hardcore rules, wired as \<^verbatim>\<open>Game.__init__\<close> wires it:
  the deck is used up, a red Skip lies alone on the board, and it is Ann's turn.\<close>

definition example_game :: Game where
  "example_game = \<lparr>game_active = True, rules = HardcoreRules, deck_config = StandardDeck,
     deck = \<lparr>card_deck = [], deck_observers = [GameContext]\<rparr>,
     board = \<lparr>cards_on_board = [Some (SkipCard RED 0)], board_observers = [GameContext]\<rparr>,
     tm = \<lparr>players = [ann, bob, cat], current = 0, clockwise = True, tm_observers = []\<rparr>,
     game_observers = [GameContext], next_card_id = 4, stdout = []\<rparr>"

text \<open>The same game with no observer subscribed to the board.\<close>

definition unobserved_game :: Game where
  "unobserved_game = example_game\<lparr>board := (board example_game)\<lparr>board_observers := []\<rparr>\<rparr>"

text \<open>The example game before a deal: fourteen number cards in the deck, yellow 6 on top.\<close>

definition dealing_game :: Game where
  "dealing_game = example_game\<lparr>deck := \<lparr>card_deck =
       [Some (NumberCard GREEN 0 10), Some (NumberCard GREEN 1 11),
        Some (NumberCard GREEN 2 12), Some (NumberCard GREEN 3 13),
        Some (NumberCard GREEN 4 14), Some (NumberCard GREEN 5 15),
        Some (NumberCard GREEN 6 16), Some (NumberCard YELLOW 0 17),
        Some (NumberCard YELLOW 1 18), Some (NumberCard YELLOW 2 19),
        Some (NumberCard YELLOW 3 20), Some (NumberCard YELLOW 4 21),
        Some (NumberCard YELLOW 5 22), Some (NumberCard YELLOW 6 23)],
     deck_observers = [GameContext]\<rparr>\<rparr>"

section \<open>Turn order\<close>

text \<open>GameContext ignores the two events of the turn manager.\<close>

lemma notify_turn_events [simp]:
  "notify_observers obs PLAYER_TURN_CHANGED data = None"
  "notify_observers obs TURN_ORDER_CHANGED data = None"
proof -
  have "\<And>ob. on_game_event ob PLAYER_TURN_CHANGED data = None"
    "\<And>ob. on_game_event ob TURN_ORDER_CHANGED data = None"
    by (case_tac ob, simp)+
  then show "notify_observers obs PLAYER_TURN_CHANGED data = None"
    "notify_observers obs TURN_ORDER_CHANGED data = None"
    by (induction obs) simp_all
qed

lemma end_turn_ok:
  "players t \<noteq> [] \<Longrightarrow>
   end_turn t = Inr (t\<lparr>current := (current t + (if clockwise t then 1 else - 1))
                                   mod int (length (players t))\<rparr>)"
  by (simp add: end_turn_def py_mod_def)

lemma subscript_mod:
  "xs \<noteq> [] \<Longrightarrow> subscript xs (i mod int (length xs)) = Inr (xs ! nat (i mod int (length xs)))"
  by (simp add: subscript_def)

text \<open>Claim C8. \<^verbatim>\<open>skip_turn\<close> is \<^verbatim>\<open>end_turn\<close>. With at least one player, the effect of a
  Skip card followed by the end of the turn succeeds and moves the current index two steps
  in the direction of play, modulo the number of players; direction and players stay.\<close>

theorem skip_then_end_turn_advances_two:
  assumes "players (tm g) \<noteq> []"
  shows "skip_turn (tm g) = end_turn (tm g) \<and>
    (\<exists>g1 t2. execute_effect_SkipCard g = Inr g1 \<and> end_turn (tm g1) = Inr t2
       \<and> current t2 = (current (tm g) + (if clockwise (tm g) then 2 else - 2))
                        mod int (length (players (tm g)))
       \<and> clockwise t2 = clockwise (tm g) \<and> players t2 = players (tm g))"
  using assms
  by (simp add: skip_turn_def execute_effect_SkipCard_def end_turn_ok print_def mod_simps
      add.commute)

theorem skip_then_end_turn_advances_two_witness:
  "players (tm (example_game\<lparr>tm := (tm example_game)\<lparr>current := 2\<rparr>\<rparr>)) \<noteq> [] \<and>
   (\<exists>g1 t2. execute_effect_SkipCard (example_game\<lparr>tm := (tm example_game)\<lparr>current := 2\<rparr>\<rparr>) = Inr g1
      \<and> end_turn (tm g1) = Inr t2 \<and> current t2 = 1 \<and> clockwise t2 = True)"
proof -
  have h: "players (tm (example_game\<lparr>tm := (tm example_game)\<lparr>current := 2\<rparr>\<rparr>)) \<noteq> []"
    by (simp add: example_game_def)
  from skip_then_end_turn_advances_two [OF h] h show ?thesis
    by (auto simp add: example_game_def)
qed

text \<open>Claim C9. \<^verbatim>\<open>get_next_player\<close> reads the turn manager and changes nothing (it is a
  function of the state). With at least one player and in either direction it returns the
  player that \<^verbatim>\<open>get_current_player\<close> returns right after one \<^verbatim>\<open>end_turn\<close>: the one
  at index \<open>current \<plusminus> 1\<close> modulo the number of players.\<close>

theorem next_player_is_current_after_end_turn:
  assumes "players t \<noteq> []"
  shows "\<exists>t' p. end_turn t = Inr t' \<and> get_next_player t = Inr p
           \<and> get_current_player t' = Inr p
           \<and> p = players t ! nat ((current t + (if clockwise t then 1 else - 1))
                                    mod int (length (players t)))"
  using assms
  by (simp add: end_turn_ok get_next_player_def get_current_player_def py_mod_def subscript_mod)

theorem next_player_is_current_after_end_turn_witness:
  "players ((tm example_game)\<lparr>clockwise := False\<rparr>) \<noteq> [] \<and>
   (\<exists>t'. end_turn ((tm example_game)\<lparr>clockwise := False\<rparr>) = Inr t'
      \<and> get_next_player ((tm example_game)\<lparr>clockwise := False\<rparr>) = Inr cat
      \<and> get_current_player t' = Inr cat)"
proof -
  have h: "players ((tm example_game)\<lparr>clockwise := False\<rparr>) \<noteq> []"
    by (simp add: example_game_def)
  from next_player_is_current_after_end_turn [OF h] h show ?thesis
    by (auto simp add: example_game_def)
qed

section \<open>Board\<close>

lemma show_top_card_on_board_last:
  "show_top_card_on_board b
     = (if cards_on_board b = [] then None else last (cards_on_board b))"
proof (cases "cards_on_board b = []")
  case True
  then show ?thesis by (simp add: show_top_card_on_board_def subscript_def)
next
  case False
  then have len: "Suc 0 \<le> length (cards_on_board b)" by (cases "cards_on_board b") simp_all
  then have "nat (int (length (cards_on_board b)) - 1) = length (cards_on_board b) - 1"
    "- int (length (cards_on_board b)) \<le> - 1"
    by (simp_all add: nat_diff_distrib')
  with False len show ?thesis
    by (simp add: show_top_card_on_board_def subscript_def last_conv_nth)
qed

text \<open>On a board that holds each card once, clearing leaves the top card alone on the
  board and, unless a handler raises, returns every other entry in board order.\<close>

lemma filter_not_last:
  assumes "xs \<noteq> []" "distinct xs"
  shows "filter (\<lambda>c. c \<noteq> last xs) xs = butlast xs"
proof -
  from assms obtain ys y where xs: "xs = ys @ [y]" by (metis append_butlast_last_id)
  with assms have "y \<notin> set ys" by simp
  then have "filter (\<lambda>c. c \<noteq> y) ys = ys" by (auto simp add: filter_id_conv)
  then show ?thesis by (simp add: xs)
qed

lemma clear_all_except_last_distinct:
  assumes "cards_on_board b \<noteq> []" "distinct (cards_on_board b)" "board_observers b = []"
  shows "clear_all_except_last b
           = (b\<lparr>cards_on_board := [last (cards_on_board b)]\<rparr>, Inr (butlast (cards_on_board b)))"
  using assms
  by (simp add: clear_all_except_last_def show_top_card_on_board_last filter_not_last Let_def)

text \<open>GameContext reads the key \<^verbatim>\<open>'board'\<close>, which the payload of the board does not
  have.\<close>

lemma notify_board_cleared:
  "notify_observers (GameContext # obs) BOARD_CLEARED [(''board_cards'', v)]
     = Some (KeyError ''board'')"
  by (simp add: getitem_def)

text \<open>Claim C6 asks that clearing an empty board returns no cards and leaves the board
  empty. The code leaves a board of size one whose only entry is \<^verbatim>\<open>None\<close>, whoever
  observes the board; with no observer it returns no cards, with a GameContext subscribed
  it raises KeyError after it has replaced the board.\<close>

theorem clear_empty_board_leaves_none:
  "fst (clear_all_except_last \<lparr>cards_on_board = [], board_observers = obs\<rparr>)
     = \<lparr>cards_on_board = [None], board_observers = obs\<rparr>
   \<and> length (cards_on_board
        (fst (clear_all_except_last \<lparr>cards_on_board = [], board_observers = obs\<rparr>))) = 1
   \<and> snd (clear_all_except_last \<lparr>cards_on_board = [], board_observers = []\<rparr>) = Inr []
   \<and> snd (clear_all_except_last \<lparr>cards_on_board = [], board_observers = [GameContext]\<rparr>)
       = Inl (KeyError ''board'')"
  by (simp add: clear_all_except_last_def show_top_card_on_board_last Let_def getitem_def
      split: option.splits)

section \<open>Legality of a play\<close>

lemma validate_play_top:
  assumes "show_top_card_on_board (board g) = Some T"
  shows "fst (validate_play g C) =
     ((effective_color C = effective_color T \<and> can_execute_effect C g = Inr True)
      \<or> (card_type C = NUMBER \<and> card_value C = card_value T)
      \<or> (card_type C \<in> set (WILD_CARDS (deck_config g)) \<and> can_execute_effect C g = Inr True))"
proof (cases "can_execute_effect C g")
  case (Inl e)
  then have "card_type C \<noteq> NUMBER" by (cases C) auto
  with Inl assms show ?thesis
    by (auto simp add: validate_play_def validation_error_def split: error.splits)
next
  case (Inr ok)
  with assms show ?thesis
    by (cases ok) (auto simp add: validate_play_def)
qed

text \<open>Claim C1. On every board of cards and for every card, \<^verbatim>\<open>validate_play\<close> returns
  true exactly when one of the four rules holds, taken in their order: the board is empty;
  the effective colours agree and the card's effect can be executed; the card is a number
  card with the top card's value; the card's type is a configured wild type and its effect
  can be executed.\<close>

theorem validate_play_follows_precedence:
  assumes "None \<notin> set (cards_on_board (board g))"
  shows "fst (validate_play g C) = validate_play_spec g C"
proof (cases "cards_on_board (board g) = []")
  case True
  then show ?thesis
    by (simp add: validate_play_def validate_play_spec_def show_top_card_on_board_last)
next
  case False
  with assms obtain T where T: "last (cards_on_board (board g)) = Some T"
    by (metis last_in_set not_Some_eq)
  with False have "show_top_card_on_board (board g) = Some T"
    by (simp add: show_top_card_on_board_last)
  from validate_play_top [OF this] False T show ?thesis
    by (auto simp add: validate_play_spec_def)
qed

theorem validate_play_follows_precedence_witness:
  "None \<notin> set (cards_on_board (board (example_game\<lparr>board := \<lparr>cards_on_board = [Some (NumberCard RED 5 0)],
           board_observers = [GameContext]\<rparr>\<rparr>))) \<and>
   fst (validate_play (example_game\<lparr>board := \<lparr>cards_on_board = [Some (NumberCard RED 5 0)],
           board_observers = [GameContext]\<rparr>\<rparr>) (NumberCard BLUE 5 2))
     = True \<and>
   validate_play_spec (example_game\<lparr>board := \<lparr>cards_on_board = [Some (NumberCard RED 5 0)],
           board_observers = [GameContext]\<rparr>\<rparr>) (NumberCard BLUE 5 2)
     = True"
proof -
  have h: "None \<notin> set (cards_on_board (board (example_game\<lparr>board := \<lparr>cards_on_board = [Some (NumberCard RED 5 0)],
           board_observers = [GameContext]\<rparr>\<rparr>)))"
    by simp
  have "validate_play_spec (example_game\<lparr>board := \<lparr>cards_on_board = [Some (NumberCard RED 5 0)],
           board_observers = [GameContext]\<rparr>\<rparr>)
          (NumberCard BLUE 5 2) = True"
    by (simp add: validate_play_spec_def)
  with validate_play_follows_precedence [OF h, of "NumberCard BLUE 5 2"] h show ?thesis
    by simp
qed

text \<open>Claim C5. With \<^verbatim>\<open>STACKABLE_DRAW_CARDS\<close> false and a Draw card on top of the board,
  \<^verbatim>\<open>validate_play\<close> rejects every card of the Draw category (DrawTwo, WildDrawFour),
  whatever its colour and whether or not its type is a configured wild type.\<close>

theorem draw_on_draw_rejected_when_not_stackable:
  assumes "DRAW \<in> effect_types C" "STACKABLE_DRAW_CARDS (rules g) = False"
    "cards_on_board (board g) \<noteq> []" "last (cards_on_board (board g)) = Some T"
    "DRAW \<in> effect_types T"
  shows "fst (validate_play g C) = False"
proof -
  have top: "show_top_card_on_board (board g) = Some T"
    using assms by (simp add: show_top_card_on_board_last)
  have "can_execute_draw g \<noteq> Inr True"
    using assms top by (auto simp add: can_execute_draw_def split: sum.splits)
  moreover have "can_execute_effect C g = can_execute_draw g" "card_type C \<noteq> NUMBER"
    using assms(1) by (cases C; simp)+
  ultimately show ?thesis
    using validate_play_top [OF top] by simp
qed

theorem draw_on_draw_rejected_when_not_stackable_witness:
  "DRAW \<in> effect_types (DrawTwoCard RED 3)
   \<and> STACKABLE_DRAW_CARDS (rules (example_game\<lparr>rules := HardcoreRules\<lparr>STACKABLE_DRAW_CARDS := False\<rparr>,
         board := \<lparr>cards_on_board = [Some (SkipCard RED 0), Some (WildDrawFourCard 5 (Some RED))],
           board_observers = [GameContext]\<rparr>\<rparr>)) = False
   \<and> cards_on_board (board (example_game\<lparr>rules := HardcoreRules\<lparr>STACKABLE_DRAW_CARDS := False\<rparr>,
         board := \<lparr>cards_on_board = [Some (SkipCard RED 0), Some (WildDrawFourCard 5 (Some RED))],
           board_observers = [GameContext]\<rparr>\<rparr>)) \<noteq> []
   \<and> last (cards_on_board (board (example_game\<lparr>rules := HardcoreRules\<lparr>STACKABLE_DRAW_CARDS := False\<rparr>,
         board := \<lparr>cards_on_board = [Some (SkipCard RED 0), Some (WildDrawFourCard 5 (Some RED))],
           board_observers = [GameContext]\<rparr>\<rparr>)))
        = Some (WildDrawFourCard 5 (Some RED))
   \<and> DRAW \<in> effect_types (WildDrawFourCard 5 (Some RED))
   \<and> effective_color (DrawTwoCard RED 3) = effective_color (WildDrawFourCard 5 (Some RED))
   \<and> fst (validate_play (example_game\<lparr>rules := HardcoreRules\<lparr>STACKABLE_DRAW_CARDS := False\<rparr>,
         board := \<lparr>cards_on_board = [Some (SkipCard RED 0), Some (WildDrawFourCard 5 (Some RED))],
           board_observers = [GameContext]\<rparr>\<rparr>)
         (DrawTwoCard RED 3)) = False"
  using draw_on_draw_rejected_when_not_stackable
    [of "DrawTwoCard RED 3"
      "example_game\<lparr>rules := HardcoreRules\<lparr>STACKABLE_DRAW_CARDS := False\<rparr>,
         board := \<lparr>cards_on_board = [Some (SkipCard RED 0), Some (WildDrawFourCard 5 (Some RED))],
           board_observers = [GameContext]\<rparr>\<rparr>"
      "WildDrawFourCard 5 (Some RED)"]
  by simp

section \<open>Winning\<close>

text \<open>Claim C7. \<^verbatim>\<open>check_win_condition\<close> makes the game inactive when the player's hand
  is empty; with one card it only prints the UNO notice; with more cards it does nothing.
  For every hand of at least one card the deck, the board, the hands, the turn state and
  \<^verbatim>\<open>game_active\<close> are as before.\<close>

theorem check_win_condition_cases:
  "(length (cards (hand p)) = 0 \<longrightarrow>
      check_win_condition g p =
        g\<lparr>game_active := False,
          stdout := stdout g @ [name p @ '' wins! '' @ [CHR 0x0A] @ '' Closing the game..'']\<rparr>)
   \<and> (length (cards (hand p)) = 1 \<longrightarrow>
      check_win_condition g p = g\<lparr>stdout := stdout g @ [name p @ '': UNO!'']\<rparr>)
   \<and> (length (cards (hand p)) > 1 \<longrightarrow> check_win_condition g p = g)"
  by (simp add: check_win_condition_def get_hand_def print_def stop_game_def Let_def)

theorem check_win_condition_cases_witness:
  "length (cards (hand cat)) = 0
   \<and> game_active example_game \<and> \<not> game_active (check_win_condition example_game cat)
   \<and> length (cards (hand ann)) = 1
   \<and> check_win_condition example_game ann = example_game\<lparr>stdout := [''Ann: UNO!'']\<rparr>
   \<and> length (cards (hand bob)) > 1
   \<and> check_win_condition example_game bob = example_game"
proof -
  have h: "length (cards (hand cat)) = 0" "length (cards (hand ann)) = 1"
    "length (cards (hand bob)) > 1"
    by (simp_all add: cat_def ann_def bob_def)
  have s: "stdout example_game = []" "game_active example_game" "name ann = ''Ann''"
    by (simp_all add: example_game_def ann_def)
  from check_win_condition_cases [of cat example_game]
    check_win_condition_cases [of ann example_game]
    check_win_condition_cases [of bob example_game] h s
  show ?thesis by simp
qed

section \<open>The last-card restriction\<close>

text \<open>The text \<^verbatim>\<open>show_hand\<close> returns is never one character long: it is the 13
  characters of \<^verbatim>\<open>Hand is empty\<close>, or it starts with a line \<^verbatim>\<open>0: Card: ...\<close>. So
  the test in \<^verbatim>\<open>_validate_last_card_allowed\<close> never forbids a card.\<close>

lemma join_length_ge: "length l \<le> length (join sep (l # ls))"
  by (cases ls) simp_all

lemma show_hand_length_not_one: "length (show_hand h) \<noteq> 1"
proof (cases "cards h")
  case Nil
  then show ?thesis by (simp add: show_hand_def)
next
  case (Cons c cs)
  have "[0 ..< length (cards h)] = 0 # [Suc 0 ..< length (cards h)]"
    using Cons by (simp add: upt_conv_Cons del: upt_Suc)
  then have "show_hand h = join [CHR 0x0A] ((str_nat 0 @ '': '' @ card_str c)
      # map (\<lambda>(index, crd). str_nat index @ '': '' @ card_str crd)
            (zip [Suc 0 ..< length (cards h)] cs))"
    using Cons by (simp add: show_hand_def del: str_nat.simps)
  then have "length (str_nat 0 @ '': '' @ card_str c) \<le> length (show_hand h)"
    by (simp only: join_length_ge)
  then show ?thesis by simp
qed

lemma show_hand_length_not_Suc_0: "length (show_hand h) \<noteq> Suc 0"
  using show_hand_length_not_one [of h] by simp

lemma validate_last_card_allowed_never_false: "validate_last_card_allowed g \<noteq> Inr False"
  by (simp add: validate_last_card_allowed_def show_hand_length_not_Suc_0 split: sum.splits)

text \<open>Claim C2 asks that, with \<^verbatim>\<open>ALLOW_FINAL_SPECIAL_CARD\<close> false and a board that is
  not empty, a card that is no number card and is the current player's only card cannot be
  executed and is rejected. In the scenario of the specification (Ann holds one red Skip,
  a red Skip is on top) the code answers that the effect can be executed and accepts the
  play.\<close>

theorem last_special_card_accepted:
  "ALLOW_FINAL_SPECIAL_CARD (rules example_game) = False
   \<and> get_current_player (tm example_game) = Inr ann
   \<and> get_hand (hand ann) = [SkipCard RED 1]
   \<and> show_top_card_on_board (board example_game) = Some (SkipCard RED 0)
   \<and> can_execute_effect (SkipCard RED 1) example_game = Inr True
   \<and> validate_play example_game (SkipCard RED 1) = (True, example_game)"
proof -
  have r: "ALLOW_FINAL_SPECIAL_CARD (rules example_game) = False"
    by (simp add: example_game_def HardcoreRules_def)
  have p: "get_current_player (tm example_game) = Inr ann"
    by (simp add: example_game_def get_current_player_def subscript_def)
  have h: "get_hand (hand ann) = [SkipCard RED 1]"
    by (simp add: ann_def get_hand_def)
  have t: "show_top_card_on_board (board example_game) = Some (SkipCard RED 0)"
    by (simp add: example_game_def show_top_card_on_board_last)
  have "validate_last_card_allowed example_game = Inr True"
    using validate_last_card_allowed_never_false [of example_game] p r
    by (simp add: validate_last_card_allowed_def split: if_splits)
  then have c: "can_execute_effect (SkipCard RED 1) example_game = Inr True"
    using t by (simp add: can_execute_special_def)
  then have "validate_play example_game (SkipCard RED 1) = (True, example_game)"
    using t by (simp add: validate_play_def)
  with r p h t c show ?thesis by simp
qed

section \<open>Recovery from an empty deck\<close>

text \<open>GameContext has no branch for \<^verbatim>\<open>REMOVE_CARD_FROM_DECK\<close>, and its handlers for
  \<^verbatim>\<open>ADD_CARD_TO_DECK\<close> and \<^verbatim>\<open>CARD_DRAWN\<close> return when the payload carries a
  card.\<close>

lemma notify_remove_card [simp]:
  "notify_observers obs REMOVE_CARD_FROM_DECK data = None"
proof -
  have "\<And>ob. on_game_event ob REMOVE_CARD_FROM_DECK data = None"
    by (case_tac ob, simp)
  then show ?thesis by (induction obs) simp_all
qed

lemma notify_add_card [simp]:
  "notify_observers obs ADD_CARD_TO_DECK [(''card'', CardValue (Some c))] = None"
proof -
  have "\<And>ob. on_game_event ob ADD_CARD_TO_DECK [(''card'', CardValue (Some c))] = None"
    by (case_tac ob, simp add: getitem_def card_data_def)
  then show ?thesis by (induction obs) simp_all
qed

lemma notify_card_drawn [simp]:
  "notify_observers obs CARD_DRAWN
     [(''card'', CardValue (Some c)), (''player'', PlayerValue p), (''timestamp'', Timestamp)]
   = None"
proof -
  have "\<And>ob. on_game_event ob CARD_DRAWN
     [(''card'', CardValue (Some c)), (''player'', PlayerValue p), (''timestamp'', Timestamp)]
   = None"
    by (case_tac ob, simp add: getitem_def card_data_def)
  then show ?thesis by (induction obs) simp_all
qed

text \<open>\<^verbatim>\<open>draw_card\<close> never raises: on an empty deck it returns \<^verbatim>\<open>None\<close>. So the
  handler for IndexError in \<^verbatim>\<open>_handle_empty_deck_scenario\<close>, and with it the second
  strategy, is never entered: the method is the recycling, if the deck is empty, and one
  draw.\<close>

lemma draw_card_never_raises:
  "draw_card d = (if card_deck d = [] then (d, Inr None)
                  else (d\<lparr>card_deck := butlast (card_deck d)\<rparr>, Inr (last (card_deck d))))"
  by (simp add: draw_card_def pop_def)

lemma handle_empty_deck_scenario_eq:
  "handle_empty_deck_scenario shf g =
     (case (if card_deck (deck g) = []
            then (case attempt_recycle_deck (deck g) (board g) of
                    ((d, b), Some e) \<Rightarrow> Inl e
                  | ((d, b), None) \<Rightarrow> Inr (g\<lparr>deck := d, board := b\<rparr>))
            else Inr g) of
        Inl e \<Rightarrow> Inl e
      | Inr g1 \<Rightarrow>
          Inr (if card_deck (deck g1) = [] then None else last (card_deck (deck g1)),
               g1\<lparr>deck := (deck g1)\<lparr>card_deck := butlast (card_deck (deck g1))\<rparr>\<rparr>))"
  by (simp add: handle_empty_deck_scenario_def draw_card_never_raises get_deck_length_def
      split: sum.splits prod.splits option.splits)

text \<open>With a GameContext subscribed to the board, as in every game, recycling raises
  KeyError, and so does the recovery from an empty deck.\<close>

lemma attempt_recycle_deck_observed:
  assumes "board_observers b = GameContext # obs"
  shows "snd (attempt_recycle_deck d b) = Some (KeyError ''board'')"
  using assms
  by (simp add: attempt_recycle_deck_def clear_all_except_last_def getitem_def Let_def)

lemma handle_empty_deck_scenario_observed:
  assumes "card_deck (deck g) = []" "board_observers (board g) = GameContext # obs"
  shows "handle_empty_deck_scenario shf g = Inl (KeyError ''board'')"
proof -
  obtain d b r where r: "attempt_recycle_deck (deck g) (board g) = ((d, b), r)"
    by (metis prod.exhaust)
  with attempt_recycle_deck_observed [OF assms(2), of "deck g"]
  have "r = Some (KeyError ''board'')" by simp
  with r assms(1) show ?thesis by (simp add: handle_empty_deck_scenario_eq)
qed

text \<open>With no observer on a board of cards that holds each card once, recycling appends
  every entry but the top one to the deck, in board order.\<close>

lemma add_cards_to_deck_cards:
  "None \<notin> set cs \<Longrightarrow> add_cards_to_deck d cs = (d\<lparr>card_deck := card_deck d @ cs\<rparr>, None)"
proof (induction cs arbitrary: d)
  case Nil
  then show ?case by simp
next
  case (Cons c cs)
  then obtain c' where "c = Some c'" by (cases c) auto
  with Cons show ?case by (simp add: add_card_to_deck_def)
qed

lemma attempt_recycle_deck_distinct:
  assumes "cards_on_board b \<noteq> []" "distinct (cards_on_board b)" "board_observers b = []"
    "None \<notin> set (butlast (cards_on_board b))"
  shows "attempt_recycle_deck d b
           = ((d\<lparr>card_deck := card_deck d @ butlast (cards_on_board b)\<rparr>,
               b\<lparr>cards_on_board := [last (cards_on_board b)]\<rparr>), None)"
  using assms
  by (simp add: attempt_recycle_deck_def clear_all_except_last_distinct add_cards_to_deck_cards)

text \<open>Claim C3 asks that, when recycling leaves the deck empty and
  \<^verbatim>\<open>ALLOW_MULTIPLE_DECKS\<close> is active, a new batch of cards is put into the deck and the
  draw retried. In the example game the rule is active and the configuration yields 108
  cards. With no observer on the board the recovery returns \<^verbatim>\<open>None\<close> and leaves the
  game as it was, and the draw ends with the warning; wired as in every game, the recovery
  and the draw raise KeyError. No deck is added either way.\<close>

theorem multiple_decks_rule_never_adds_deck:
  "ALLOW_MULTIPLE_DECKS (rules example_game)
   \<and> ALLOW_MULTIPLE_DECKS (rules unobserved_game)
   \<and> length (card_requests (deck_config example_game)) = 108
   \<and> length (card_requests (deck_config unobserved_game)) = 108
   \<and> card_deck (deck example_game) = []
   \<and> card_deck (deck unobserved_game) = []
   \<and> handle_empty_deck_scenario shf unobserved_game = Inr (None, unobserved_game)
   \<and> player_draw_card shf unobserved_game 0 1 =
       Inr (print unobserved_game ''Warning: Ann could only draw 0 of 1 requested cards'')
   \<and> handle_empty_deck_scenario shf example_game = Inl (KeyError ''board'')
   \<and> player_draw_card shf example_game 0 1 = Inl (KeyError ''board'')"
proof -
  have a: "ALLOW_MULTIPLE_DECKS (rules example_game)" "card_deck (deck example_game) = []"
    "ALLOW_MULTIPLE_DECKS (rules unobserved_game)" "card_deck (deck unobserved_game) = []"
    by (simp_all add: unobserved_game_def example_game_def HardcoreRules_def)
  have n: "length (card_requests (deck_config example_game)) = 108"
    "length (card_requests (deck_config unobserved_game)) = 108"
    by (simp_all add: unobserved_game_def example_game_def StandardDeck_def card_requests_def)
  have r: "attempt_recycle_deck (deck unobserved_game) (board unobserved_game)
             = ((deck unobserved_game, board unobserved_game), None)"
    by (simp add: attempt_recycle_deck_distinct unobserved_game_def example_game_def)
  have h: "handle_empty_deck_scenario shf unobserved_game = Inr (None, unobserved_game)"
    using a r by (simp add: handle_empty_deck_scenario_eq)
  have d: "player_draw_card shf unobserved_game 0 1 =
       Inr (print unobserved_game ''Warning: Ann could only draw 0 of 1 requested cards'')"
    using a h by (simp add: player_draw_card_def draw_card_never_raises str_int_def)
      (simp add: unobserved_game_def example_game_def ann_def str_int_def)
  have o: "board_observers (board example_game) = GameContext # []"
    by (simp add: example_game_def)
  have h': "handle_empty_deck_scenario shf example_game = Inl (KeyError ''board'')"
    using handle_empty_deck_scenario_observed [OF a(2) o] .
  have d': "player_draw_card shf example_game 0 1 = Inl (KeyError ''board'')"
    using a h' by (simp add: player_draw_card_def draw_card_never_raises)
  from a n h d h' d' show ?thesis by simp
qed

text \<open>Claim C4 as stated, that the recovery recycles the board into the deck and shuffles
  the deck before it retries the draw, fails. With no observer on the board and the shuffle
  that reverses the deck, the code draws red 2 from a board of three, where recycling,
  shuffling and drawing gives red 1. Wired as in every game, the recovery raises KeyError
  from the board and neither recycles nor draws.\<close>

theorem recovery_does_not_shuffle_counterexample:
  "card_deck (deck unobserved_game) = []
   \<and> handle_empty_deck_scenario rev
        (unobserved_game\<lparr>board := \<lparr>cards_on_board =
           [Some (NumberCard RED 1 5), Some (NumberCard RED 2 6), Some (SkipCard RED 0)],
           board_observers = []\<rparr>\<rparr>)
      = Inr (Some (NumberCard RED 2 6),
             unobserved_game\<lparr>deck := \<lparr>card_deck = [Some (NumberCard RED 1 5)],
                                       deck_observers = [GameContext]\<rparr>,
                              board := \<lparr>cards_on_board = [Some (SkipCard RED 0)],
                                        board_observers = []\<rparr>\<rparr>)
   \<and> recovery_spec rev
        (unobserved_game\<lparr>board := \<lparr>cards_on_board =
           [Some (NumberCard RED 1 5), Some (NumberCard RED 2 6), Some (SkipCard RED 0)],
           board_observers = []\<rparr>\<rparr>)
      = Inr (Some (NumberCard RED 1 5),
             unobserved_game\<lparr>deck := \<lparr>card_deck = [Some (NumberCard RED 2 6)],
                                       deck_observers = [GameContext]\<rparr>,
                              board := \<lparr>cards_on_board = [Some (SkipCard RED 0)],
                                        board_observers = []\<rparr>\<rparr>)
   \<and> card_deck (deck example_game) = []
   \<and> handle_empty_deck_scenario rev
        (example_game\<lparr>board := \<lparr>cards_on_board =
           [Some (NumberCard RED 1 5), Some (NumberCard RED 2 6), Some (SkipCard RED 0)],
           board_observers = [GameContext]\<rparr>\<rparr>)
      = Inl (KeyError ''board'')"
proof -
  have e: "card_deck (deck unobserved_game) = []" "card_deck (deck example_game) = []"
    "deck unobserved_game = \<lparr>card_deck = [], deck_observers = [GameContext]\<rparr>"
    by (simp_all add: unobserved_game_def example_game_def)
  have r: "attempt_recycle_deck (deck unobserved_game)
             \<lparr>cards_on_board =
                [Some (NumberCard RED 1 5), Some (NumberCard RED 2 6), Some (SkipCard RED 0)],
              board_observers = []\<rparr>
           = ((\<lparr>card_deck = [Some (NumberCard RED 1 5), Some (NumberCard RED 2 6)],
                deck_observers = [GameContext]\<rparr>,
               \<lparr>cards_on_board = [Some (SkipCard RED 0)], board_observers = []\<rparr>), None)"
    by (simp add: attempt_recycle_deck_distinct e(3))
  have 1: "handle_empty_deck_scenario rev
        (unobserved_game\<lparr>board := \<lparr>cards_on_board =
           [Some (NumberCard RED 1 5), Some (NumberCard RED 2 6), Some (SkipCard RED 0)],
           board_observers = []\<rparr>\<rparr>)
      = Inr (Some (NumberCard RED 2 6),
             unobserved_game\<lparr>deck := \<lparr>card_deck = [Some (NumberCard RED 1 5)],
                                       deck_observers = [GameContext]\<rparr>,
                              board := \<lparr>cards_on_board = [Some (SkipCard RED 0)],
                                        board_observers = []\<rparr>\<rparr>)"
    using e(1) r by (simp add: handle_empty_deck_scenario_eq)
  have 2: "recovery_spec rev
        (unobserved_game\<lparr>board := \<lparr>cards_on_board =
           [Some (NumberCard RED 1 5), Some (NumberCard RED 2 6), Some (SkipCard RED 0)],
           board_observers = []\<rparr>\<rparr>)
      = Inr (Some (NumberCard RED 1 5),
             unobserved_game\<lparr>deck := \<lparr>card_deck = [Some (NumberCard RED 2 6)],
                                       deck_observers = [GameContext]\<rparr>,
                              board := \<lparr>cards_on_board = [Some (SkipCard RED 0)],
                                        board_observers = []\<rparr>\<rparr>)"
    using r by (simp add: recovery_spec_def draw_card_never_raises shuffle_deck_def)
  have 3: "handle_empty_deck_scenario rev
        (example_game\<lparr>board := \<lparr>cards_on_board =
           [Some (NumberCard RED 1 5), Some (NumberCard RED 2 6), Some (SkipCard RED 0)],
           board_observers = [GameContext]\<rparr>\<rparr>)
      = Inl (KeyError ''board'')"
    using e(2) by (intro handle_empty_deck_scenario_observed [of _ "[]"]) simp_all
  from e(1,2) 1 2 3 show ?thesis by simp
qed

text \<open>Claim C4, amended. On an empty deck, with a board of cards that is not empty and
  holds each card once and with no observer subscribed to the board, the recovery recycles
  every board entry but the top one into the deck, in board order, and retries the draw at
  once, without a shuffle: the draw returns the card that lay directly under the top card
  (nothing, if the top card was alone), whatever the shuffle \<open>shf\<close> would do.\<close>

theorem recovery_recycles_without_shuffle:
  assumes "card_deck (deck g) = []" "cards_on_board (board g) \<noteq> []"
    "distinct (cards_on_board (board g))" "None \<notin> set (cards_on_board (board g))"
    "board_observers (board g) = []"
  shows "handle_empty_deck_scenario shf g =
     Inr (if butlast (cards_on_board (board g)) = [] then None
          else last (butlast (cards_on_board (board g))),
          g\<lparr>deck := (deck g)\<lparr>card_deck := butlast (butlast (cards_on_board (board g)))\<rparr>,
            board := (board g)\<lparr>cards_on_board := [last (cards_on_board (board g))]\<rparr>\<rparr>)"
proof -
  have "None \<notin> set (butlast (cards_on_board (board g)))"
    using assms(4) by (auto dest: in_set_butlastD)
  with assms show ?thesis
    by (simp add: handle_empty_deck_scenario_eq attempt_recycle_deck_distinct)
qed

theorem recovery_recycles_without_shuffle_witness:
  "card_deck (deck (unobserved_game\<lparr>board := \<lparr>cards_on_board =
       [Some (NumberCard RED 1 5), Some (NumberCard RED 2 6), Some (SkipCard RED 0)],
       board_observers = []\<rparr>\<rparr>)) = []
   \<and> cards_on_board (board (unobserved_game\<lparr>board := \<lparr>cards_on_board =
       [Some (NumberCard RED 1 5), Some (NumberCard RED 2 6), Some (SkipCard RED 0)],
       board_observers = []\<rparr>\<rparr>)) \<noteq> []
   \<and> distinct (cards_on_board (board (unobserved_game\<lparr>board := \<lparr>cards_on_board =
       [Some (NumberCard RED 1 5), Some (NumberCard RED 2 6), Some (SkipCard RED 0)],
       board_observers = []\<rparr>\<rparr>)))
   \<and> None \<notin> set (cards_on_board (board (unobserved_game\<lparr>board := \<lparr>cards_on_board =
       [Some (NumberCard RED 1 5), Some (NumberCard RED 2 6), Some (SkipCard RED 0)],
       board_observers = []\<rparr>\<rparr>)))
   \<and> board_observers (board (unobserved_game\<lparr>board := \<lparr>cards_on_board =
       [Some (NumberCard RED 1 5), Some (NumberCard RED 2 6), Some (SkipCard RED 0)],
       board_observers = []\<rparr>\<rparr>)) = []
   \<and> handle_empty_deck_scenario rev
        (unobserved_game\<lparr>board := \<lparr>cards_on_board =
           [Some (NumberCard RED 1 5), Some (NumberCard RED 2 6), Some (SkipCard RED 0)],
           board_observers = []\<rparr>\<rparr>)
      = Inr (Some (NumberCard RED 2 6),
             unobserved_game\<lparr>deck := \<lparr>card_deck = [Some (NumberCard RED 1 5)],
                                       deck_observers = [GameContext]\<rparr>,
                              board := \<lparr>cards_on_board = [Some (SkipCard RED 0)],
                                        board_observers = []\<rparr>\<rparr>)"
proof -
  let ?g = "unobserved_game\<lparr>board := \<lparr>cards_on_board =
       [Some (NumberCard RED 1 5), Some (NumberCard RED 2 6), Some (SkipCard RED 0)],
       board_observers = []\<rparr>\<rparr>"
  have d: "deck unobserved_game = \<lparr>card_deck = [], deck_observers = [GameContext]\<rparr>"
    by (simp add: unobserved_game_def example_game_def)
  have h: "card_deck (deck ?g) = []" "cards_on_board (board ?g) \<noteq> []"
    "distinct (cards_on_board (board ?g))" "None \<notin> set (cards_on_board (board ?g))"
    "board_observers (board ?g) = []"
    by (simp_all add: d)
  from recovery_recycles_without_shuffle [OF h, of rev] h d show ?thesis by simp
qed

section \<open>Dealing\<close>

lemma print_fields [simp]:
  "deck (print g s) = deck g" "board (print g s) = board g" "tm (print g s) = tm g"
  "game_active (print g s) = game_active g" "rules (print g s) = rules g"
  "game_observers (print g s) = game_observers g"
  by (simp_all add: print_def)

lemma player_takes_fields [simp]:
  "deck (player_takes g pl c) = deck g" "board (player_takes g pl c) = board g"
  "game_observers (player_takes g pl c) = game_observers g"
  "players (tm (player_takes g pl c)) =
     (players (tm g))[pl := draw_card_Player (players (tm g) ! pl) c]"
  by (simp_all add: player_takes_def)

lemma cards_draw_card_Player [simp]:
  "cards (hand (draw_card_Player p c)) = cards (hand p) @ [c]"
  by (simp add: draw_card_Player_def add_card_def)

text \<open>Drawing from a deck that holds enough cards: no recovery is needed, and the observers
  of the deck and of the game, whoever they are, handle the events of a draw.\<close>

lemma player_draw_loop_enough:
  assumes "k \<le> length (card_deck (deck g))" "None \<notin> set (card_deck (deck g))"
    "pl < length (players (tm g))"
  shows "\<exists>g'. player_draw_loop shf pl amount k (cd, nde, g) = Inr g'
           \<and> card_deck (deck g') = take (length (card_deck (deck g)) - k) (card_deck (deck g))
           \<and> length (players (tm g')) = length (players (tm g))
           \<and> cards (hand (players (tm g') ! pl))
               = cards (hand (players (tm g) ! pl)) @ map the (take k (rev (card_deck (deck g))))
           \<and> (\<forall>j. j \<noteq> pl \<longrightarrow> players (tm g') ! j = players (tm g) ! j)"
  using assms
proof (induction k arbitrary: cd nde g)
  case 0
  then show ?case by simp
next
  case (Suc k)
  define dk where "dk = card_deck (deck g)"
  from Suc.prems have ne: "dk \<noteq> []" by (auto simp add: dk_def)
  with Suc.prems obtain c where c: "last dk = Some c"
    unfolding dk_def by (metis last_in_set not_Some_eq)
  define g2 where "g2 = player_takes (g\<lparr>deck := (deck g)\<lparr>card_deck := butlast dk\<rparr>\<rparr>) pl c"
  define g3 where "g3 = (if cd + 1 = amount \<and> nde \<and> game_active g2
                          then print g2 (''* '' @ name (players (tm g2) ! pl) @ '' took ''
                                         @ str_int (cd + 1) @ '' card(s)! *'')
                          else g2)"
  have step: "player_draw_loop shf pl amount (Suc k) (cd, nde, g)
                = player_draw_loop shf pl amount k (cd + 1, nde, g3)"
    using ne c by (simp add: draw_card_never_raises g2_def g3_def dk_def Let_def)
  have d3: "card_deck (deck g3) = butlast dk"
    and p3: "players (tm g3) = (players (tm g))[pl := draw_card_Player (players (tm g) ! pl) c]"
    by (simp_all add: g3_def g2_def)
  have pre: "k \<le> length (card_deck (deck g3))" "None \<notin> set (card_deck (deck g3))"
    "pl < length (players (tm g3))"
    using Suc.prems d3 p3 by (auto simp add: dk_def dest: in_set_butlastD)
  from Suc.IH [OF pre, of "cd + 1" nde] obtain g' where g':
    "player_draw_loop shf pl amount k (cd + 1, nde, g3) = Inr g'"
    "card_deck (deck g') = take (length (card_deck (deck g3)) - k) (card_deck (deck g3))"
    "length (players (tm g')) = length (players (tm g3))"
    "cards (hand (players (tm g') ! pl))
       = cards (hand (players (tm g3) ! pl)) @ map the (take k (rev (card_deck (deck g3))))"
    "\<forall>j. j \<noteq> pl \<longrightarrow> players (tm g') ! j = players (tm g3) ! j"
    by blast
  have "dk = butlast dk @ [Some c]"
    using ne c append_butlast_last_id [of dk] by simp
  then have "rev dk = rev (butlast dk @ [Some c])" by simp
  then have "rev dk = Some c # rev (butlast dk)"
    by (simp only: rev_append rev.simps append_Cons append_Nil)
  then have r: "take (Suc k) (rev dk) = Some c # take k (rev (butlast dk))"
    by (simp only: take_Suc_Cons)
  have le: "Suc k \<le> length dk" using Suc.prems(1) by (simp add: dk_def)
  have "card_deck (deck g') = take (length dk - Suc k) dk"
    using g'(2) d3 le by (simp add: butlast_conv_take min_def)
  moreover have "cards (hand (players (tm g') ! pl))
       = cards (hand (players (tm g) ! pl)) @ map the (take (Suc k) (rev dk))"
    using g'(4) p3 d3 Suc.prems(3) by (simp add: r del: take_Suc_Cons)
  moreover have "\<forall>j. j \<noteq> pl \<longrightarrow> players (tm g') ! j = players (tm g) ! j"
    using g'(5) p3 by simp
  moreover have "length (players (tm g')) = length (players (tm g))"
    using g'(3) p3 by simp
  ultimately show ?case using step g'(1) by (simp add: dk_def)
qed

lemma deal_loop_enough:
  assumes "nat n * length ps \<le> length (card_deck (deck g))" "None \<notin> set (card_deck (deck g))"
    "distinct ps" "\<forall>p \<in> set ps. p < length (players (tm g))"
  shows "\<exists>g'. deal_loop shf n ps g = Inr g'
           \<and> card_deck (deck g')
               = take (length (card_deck (deck g)) - nat n * length ps) (card_deck (deck g))
           \<and> length (players (tm g')) = length (players (tm g))
           \<and> (\<forall>k < length ps. cards (hand (players (tm g') ! (ps ! k)))
                 = cards (hand (players (tm g) ! (ps ! k)))
                   @ map the (take (nat n) (drop (k * nat n) (rev (card_deck (deck g))))))
           \<and> (\<forall>j. j \<notin> set ps \<longrightarrow> players (tm g') ! j = players (tm g) ! j)"
  using assms
proof (induction ps arbitrary: g)
  case Nil
  then show ?case by simp
next
  case (Cons p ps)
  define m where "m = nat n"
  define dk where "dk = card_deck (deck g)"
  have le: "m \<le> length dk" "m * length ps \<le> length dk - m"
    using Cons.prems(1) by (simp_all add: m_def dk_def)
  have pl: "p < length (players (tm g))" using Cons.prems(4) by simp
  from player_draw_loop_enough [OF _ Cons.prems(2) pl, of m shf n 0 True] le(1)
  obtain g1 where g1: "player_draw_card shf g p n = Inr g1"
    "card_deck (deck g1) = take (length dk - m) dk"
    "length (players (tm g1)) = length (players (tm g))"
    "cards (hand (players (tm g1) ! p))
       = cards (hand (players (tm g) ! p)) @ map the (take m (rev dk))"
    "\<forall>j. j \<noteq> p \<longrightarrow> players (tm g1) ! j = players (tm g) ! j"
    unfolding player_draw_card_def m_def dk_def by blast
  have pre: "nat n * length ps \<le> length (card_deck (deck g1))"
    "None \<notin> set (card_deck (deck g1))" "distinct ps"
    "\<forall>q \<in> set ps. q < length (players (tm g1))"
    using Cons.prems g1(2,3) le by (auto simp add: m_def dk_def dest: in_set_takeD)
  from Cons.IH [OF pre] obtain g' where g':
    "deal_loop shf n ps g1 = Inr g'"
    "card_deck (deck g')
       = take (length (card_deck (deck g1)) - nat n * length ps) (card_deck (deck g1))"
    "length (players (tm g')) = length (players (tm g1))"
    "\<forall>k < length ps. cards (hand (players (tm g') ! (ps ! k)))
                 = cards (hand (players (tm g1) ! (ps ! k)))
                   @ map the (take (nat n) (drop (k * nat n) (rev (card_deck (deck g1)))))"
    "\<forall>j. j \<notin> set ps \<longrightarrow> players (tm g') ! j = players (tm g1) ! j"
    by blast
  have rv: "rev (card_deck (deck g1)) = drop m (rev dk)"
    using g1(2) le(1) by (simp add: rev_take)
  have "deal_loop shf n (p # ps) g = Inr g'" using g1(1) g'(1) by simp
  moreover have "card_deck (deck g') = take (length dk - nat n * length (p # ps)) dk"
  proof -
    have l1: "length (card_deck (deck g1)) = length dk - m" using g1(2) by simp
    have "card_deck (deck g') = take (length dk - m - m * length ps) (take (length dk - m) dk)"
      using g'(2) l1 g1(2) by (simp only: m_def)
    also have "\<dots> = take (length dk - m - m * length ps) dk"
      by (simp add: min_absorb1)
    also have "length dk - m - m * length ps = length dk - nat n * length (p # ps)"
      by (simp add: m_def)
    finally show ?thesis .
  qed
  moreover have "length (players (tm g')) = length (players (tm g))"
    using g'(3) g1(3) by simp
  moreover have "\<forall>k < length (p # ps). cards (hand (players (tm g') ! ((p # ps) ! k)))
                 = cards (hand (players (tm g) ! ((p # ps) ! k)))
                   @ map the (take (nat n) (drop (k * nat n) (rev dk)))"
  proof (intro allI impI)
    fix k assume k: "k < length (p # ps)"
    show "cards (hand (players (tm g') ! ((p # ps) ! k)))
                 = cards (hand (players (tm g) ! ((p # ps) ! k)))
                   @ map the (take (nat n) (drop (k * nat n) (rev dk)))"
    proof (cases k)
      case 0
      have "p \<notin> set ps" using Cons.prems(3) by simp
      with g'(5) have "players (tm g') ! p = players (tm g1) ! p" by simp
      with g1(4) 0 show ?thesis by (simp add: m_def)
    next
      case (Suc k')
      with k have k': "k' < length ps" by simp
      then have "ps ! k' \<noteq> p" using Cons.prems(3) by auto
      with g1(5) have "players (tm g1) ! (ps ! k') = players (tm g) ! (ps ! k')" by simp
      with g'(4) k' rv Suc show ?thesis by (simp add: m_def add.commute)
    qed
  qed
  moreover have "\<forall>j. j \<notin> set (p # ps) \<longrightarrow> players (tm g') ! j = players (tm g) ! j"
    using g'(5) g1(5) by simp
  ultimately show ?case unfolding dk_def by blast
qed

text \<open>Claim C10 as stated, that \<^verbatim>\<open>deal_cards\<close> does not fail and that seven cards reach
  each player after the fallback, fails on a deck that runs out. With one card in the deck,
  only the top card on the board, no second deck allowed and no observer on the board, Ann
  is dealt one card; wired as in every game, the call raises KeyError from the board.\<close>

theorem deal_cards_short_deck_counterexample:
  "ALLOW_MULTIPLE_DECKS (rules (unobserved_game\<lparr>rules := HardcoreRules\<lparr>ALLOW_MULTIPLE_DECKS := False\<rparr>,
        deck := \<lparr>card_deck = [Some (NumberCard GREEN 7 9)], deck_observers = [GameContext]\<rparr>\<rparr>))
     = False
   \<and> length (cards (hand (players (tm (unobserved_game\<lparr>rules := HardcoreRules\<lparr>ALLOW_MULTIPLE_DECKS := False\<rparr>,
        deck := \<lparr>card_deck = [Some (NumberCard GREEN 7 9)], deck_observers = [GameContext]\<rparr>\<rparr>)) ! 0)))
     = 1
   \<and> (case deal_cards id (unobserved_game\<lparr>rules := HardcoreRules\<lparr>ALLOW_MULTIPLE_DECKS := False\<rparr>,
              deck := \<lparr>card_deck = [Some (NumberCard GREEN 7 9)], deck_observers = [GameContext]\<rparr>\<rparr>)
            [0] (PyInt 0) of
        Inl e \<Rightarrow> None
      | Inr g' \<Rightarrow> Some (length (cards (hand (players (tm g') ! 0)))))
     = Some 2
   \<and> (case deal_cards id (unobserved_game\<lparr>rules := HardcoreRules\<lparr>ALLOW_MULTIPLE_DECKS := False\<rparr>,
              deck := \<lparr>card_deck = [Some (NumberCard GREEN 7 9)], deck_observers = [GameContext]\<rparr>\<rparr>)
            [0] (PyInt 0) of
        Inl e \<Rightarrow> None
      | Inr g' \<Rightarrow> Some (length (cards (hand (players (tm g') ! 0)))))
     \<noteq> Some (1 + 7)
   \<and> deal_cards id (example_game\<lparr>rules := HardcoreRules\<lparr>ALLOW_MULTIPLE_DECKS := False\<rparr>,
        deck := \<lparr>card_deck = [Some (NumberCard GREEN 7 9)], deck_observers = [GameContext]\<rparr>\<rparr>)
        [0] (PyInt 0)
     = Inl (KeyError ''board'')"
proof -
  let ?u = "unobserved_game\<lparr>rules := HardcoreRules\<lparr>ALLOW_MULTIPLE_DECKS := False\<rparr>,
        deck := \<lparr>card_deck = [Some (NumberCard GREEN 7 9)], deck_observers = [GameContext]\<rparr>\<rparr>"
  let ?e = "example_game\<lparr>rules := HardcoreRules\<lparr>ALLOW_MULTIPLE_DECKS := False\<rparr>,
        deck := \<lparr>card_deck = [Some (NumberCard GREEN 7 9)], deck_observers = [GameContext]\<rparr>\<rparr>"
  have u: "(case deal_cards id ?u [0] (PyInt 0) of
        Inl e \<Rightarrow> None
      | Inr g' \<Rightarrow> Some (length (cards (hand (players (tm g') ! 0))))) = Some 2"
    by (simp add: deal_cards_def player_draw_card_def eval_nat_numeral draw_card_never_raises
        handle_empty_deck_scenario_eq Let_def)
      (simp add: unobserved_game_def example_game_def ann_def print_def player_takes_def
        draw_card_Player_def add_card_def attempt_recycle_deck_distinct)
  have e: "deal_cards id ?e [0] (PyInt 0) = Inl (KeyError ''board'')"
    by (simp add: deal_cards_def player_draw_card_def eval_nat_numeral draw_card_never_raises
        Let_def)
      (simp add: handle_empty_deck_scenario_observed [of _ "[]"] example_game_def print_def
        player_takes_def)
  have "length (cards (hand (players (tm ?u) ! 0))) = 1"
    by (simp add: unobserved_game_def example_game_def ann_def)
  with u e show ?thesis by simp
qed

text \<open>Claim C10, amended. Let \<open>n\<close> be \<^verbatim>\<open>cards_per_player\<close> if it is a positive integer
  and the default 7 otherwise (zero, negative, or no integer). For every list of players of
  the game that names each player once, and a deck of cards that holds at least \<open>n\<close> cards
  for each listed player, \<^verbatim>\<open>deal_cards\<close> does not fail and deals exactly \<open>n\<close> cards to
  each listed player, in list order: the \<open>k\<close>-th player of the list receives the \<open>k\<close>-th run
  of \<open>n\<close> cards from the top of the deck.\<close>

theorem deal_cards_deals_when_deck_suffices:
  assumes "distinct ps" "\<forall>p \<in> set ps. p < length (players (tm g))"
    "None \<notin> set (card_deck (deck g))"
    "effective_cards_per_player v * length ps \<le> length (card_deck (deck g))"
  shows "\<exists>g'. deal_cards shf g ps v = Inr g' \<and>
          (\<forall>k < length ps.
             cards (hand (players (tm g') ! (ps ! k)))
               = cards (hand (players (tm g) ! (ps ! k)))
                 @ map the (take (effective_cards_per_player v)
                              (drop (k * effective_cards_per_player v) (rev (card_deck (deck g)))))
             \<and> length (cards (hand (players (tm g') ! (ps ! k))))
               = length (cards (hand (players (tm g) ! (ps ! k)))) + effective_cards_per_player v)"
proof -
  define n :: int where "n = (case v of PyInt i \<Rightarrow> if i \<le> 0 then 7 else i | PyNonInt s \<Rightarrow> 7)"
  have n: "nat n = effective_cards_per_player v"
    by (simp add: n_def effective_cards_per_player_def split: pyval.splits)
  have "\<exists>g0. deal_cards shf g ps v = deal_loop shf n ps g0
           \<and> deck g0 = deck g \<and> players (tm g0) = players (tm g)"
  proof (cases "\<exists>i. v = PyInt i \<and> 0 < i")
    case True
    then show ?thesis by (intro exI [of _ g]) (auto simp add: deal_cards_def n_def)
  next
    case False
    then have "n = 7" by (auto simp add: n_def split: pyval.splits)
    moreover have "\<exists>s. deal_cards shf g ps v = deal_loop shf 7 ps (print g s)"
      using False by (cases v) (auto simp add: deal_cards_def)
    ultimately show ?thesis by (metis print_fields(1,3))
  qed
  then obtain g0 where g0: "deal_cards shf g ps v = deal_loop shf n ps g0"
    "deck g0 = deck g" "players (tm g0) = players (tm g)"
    by blast
  from deal_loop_enough [of n ps g0 shf] assms n g0(2,3)
  obtain g' where g': "deal_loop shf n ps g0 = Inr g'"
    "\<forall>k < length ps. cards (hand (players (tm g') ! (ps ! k)))
                 = cards (hand (players (tm g) ! (ps ! k)))
                   @ map the (take (nat n) (drop (k * nat n) (rev (card_deck (deck g)))))"
    by auto
  have len: "length (take (nat n) (drop (k * nat n) (rev (card_deck (deck g))))) = nat n"
    if "k < length ps" for k
  proof -
    have "Suc k * nat n \<le> length ps * nat n" using that by (simp add: Suc_leI del: mult_Suc)
    with assms(4) n have "Suc k * nat n \<le> length (card_deck (deck g))"
      by (simp add: mult.commute)
    then show ?thesis by simp
  qed
  show ?thesis
    using g0(1) g' len n by (intro exI [of _ g']) simp
qed

theorem deal_cards_deals_when_deck_suffices_witness:
  "distinct [1, 0::nat]
   \<and> 1 < length (players (tm dealing_game))
   \<and> None \<notin> set (card_deck (deck dealing_game))
   \<and> effective_cards_per_player (PyInt 0) = 7
   \<and> effective_cards_per_player (PyNonInt ''None'') = 7
   \<and> effective_cards_per_player (PyInt 2) = 2
   \<and> 7 * length [1, 0::nat] \<le> length (card_deck (deck dealing_game))
   \<and> (\<exists>g'. deal_cards id dealing_game [1, 0] (PyInt 0) = Inr g'
        \<and> cards (hand (players (tm g') ! 1))
            = [NumberCard BLUE 5 2, DrawTwoCard RED 3, NumberCard YELLOW 6 23,
              NumberCard YELLOW 5 22, NumberCard YELLOW 4 21, NumberCard YELLOW 3 20,
              NumberCard YELLOW 2 19, NumberCard YELLOW 1 18, NumberCard YELLOW 0 17]
        \<and> cards (hand (players (tm g') ! 0))
            = [SkipCard RED 1, NumberCard GREEN 6 16, NumberCard GREEN 5 15, NumberCard
              GREEN 4 14, NumberCard GREEN 3 13, NumberCard GREEN 2 12, NumberCard GREEN
              1 11, NumberCard GREEN 0 10])
   \<and> (\<exists>g'. deal_cards id dealing_game [1, 0] (PyNonInt ''None'') = Inr g'
        \<and> cards (hand (players (tm g') ! 1))
            = [NumberCard BLUE 5 2, DrawTwoCard RED 3, NumberCard YELLOW 6 23,
              NumberCard YELLOW 5 22, NumberCard YELLOW 4 21, NumberCard YELLOW 3 20,
              NumberCard YELLOW 2 19, NumberCard YELLOW 1 18, NumberCard YELLOW 0 17]
        \<and> cards (hand (players (tm g') ! 0))
            = [SkipCard RED 1, NumberCard GREEN 6 16, NumberCard GREEN 5 15, NumberCard
              GREEN 4 14, NumberCard GREEN 3 13, NumberCard GREEN 2 12, NumberCard GREEN
              1 11, NumberCard GREEN 0 10])
   \<and> (\<exists>g'. deal_cards id dealing_game [1, 0] (PyInt 2) = Inr g'
        \<and> cards (hand (players (tm g') ! 1))
            = [NumberCard BLUE 5 2, DrawTwoCard RED 3, NumberCard YELLOW 6 23,
              NumberCard YELLOW 5 22]
        \<and> cards (hand (players (tm g') ! 0))
            = [SkipCard RED 1, NumberCard YELLOW 4 21, NumberCard YELLOW 3 20])"
proof -
  have e: "effective_cards_per_player (PyInt 0) = 7"
    "effective_cards_per_player (PyNonInt ''None'') = 7"
    "effective_cards_per_player (PyInt 2) = 2"
    by (simp_all add: effective_cards_per_player_def)
  have b: "distinct [1, 0::nat]" "\<forall>p \<in> set [1, 0::nat]. p < length (players (tm dealing_game))"
    "None \<notin> set (card_deck (deck dealing_game))"
    "length (card_deck (deck dealing_game)) = 14"
    "1 < length (players (tm dealing_game))"
    by (simp_all add: dealing_game_def example_game_def)
  have main: "\<exists>g'. deal_cards id dealing_game [1, 0] v = Inr g'
        \<and> cards (hand (players (tm g') ! 1))
            = cards (hand bob) @ map the (take n (rev (card_deck (deck dealing_game))))
        \<and> cards (hand (players (tm g') ! 0))
            = cards (hand ann) @ map the (take n (drop n (rev (card_deck (deck dealing_game)))))"
    if v: "effective_cards_per_player v = n" and n: "n * 2 \<le> 14" for v n
  proof -
    have "effective_cards_per_player v * length [1, 0::nat] \<le> length (card_deck (deck dealing_game))"
      using v n b(4) by simp
    from deal_cards_deals_when_deck_suffices [OF b(1,2,3) this, of id]
    obtain g' where g': "deal_cards id dealing_game [1, 0] v = Inr g'"
      "\<forall>k < length [1, 0::nat].
             cards (hand (players (tm g') ! ([1, 0] ! k)))
               = cards (hand (players (tm dealing_game) ! ([1, 0] ! k)))
                 @ map the (take (effective_cards_per_player v)
                     (drop (k * effective_cards_per_player v) (rev (card_deck (deck dealing_game)))))"
      by blast
    from g'(2) [rule_format, of 0] g'(2) [rule_format, of 1]
    have "cards (hand (players (tm g') ! 1))
            = cards (hand bob) @ map the (take n (rev (card_deck (deck dealing_game))))"
      "cards (hand (players (tm g') ! 0))
            = cards (hand ann) @ map the (take n (drop n (rev (card_deck (deck dealing_game)))))"
      by (simp_all add: v) (simp_all add: dealing_game_def example_game_def)
    with g'(1) show ?thesis by blast
  qed
  have 7: "\<exists>g'. deal_cards id dealing_game [1, 0] v = Inr g'
        \<and> cards (hand (players (tm g') ! 1))
            = [NumberCard BLUE 5 2, DrawTwoCard RED 3, NumberCard YELLOW 6 23,
              NumberCard YELLOW 5 22, NumberCard YELLOW 4 21, NumberCard YELLOW 3 20,
              NumberCard YELLOW 2 19, NumberCard YELLOW 1 18, NumberCard YELLOW 0 17]
        \<and> cards (hand (players (tm g') ! 0))
            = [SkipCard RED 1, NumberCard GREEN 6 16, NumberCard GREEN 5 15, NumberCard
              GREEN 4 14, NumberCard GREEN 3 13, NumberCard GREEN 2 12, NumberCard GREEN
              1 11, NumberCard GREEN 0 10]"
    if "effective_cards_per_player v = 7" for v
    using main [OF that] by (simp add: dealing_game_def example_game_def ann_def bob_def)
  have 2: "\<exists>g'. deal_cards id dealing_game [1, 0] (PyInt 2) = Inr g'
        \<and> cards (hand (players (tm g') ! 1))
            = [NumberCard BLUE 5 2, DrawTwoCard RED 3, NumberCard YELLOW 6 23,
              NumberCard YELLOW 5 22]
        \<and> cards (hand (players (tm g') ! 0))
            = [SkipCard RED 1, NumberCard YELLOW 4 21, NumberCard YELLOW 3 20]"
    using main [OF e(3)] by (simp add: dealing_game_def example_game_def ann_def bob_def)
  from e b(1,3,4,5) 7 [OF e(1)] 7 [OF e(2)] 2 show ?thesis by simp
qed

end
